theory Spec2Isabelle
  imports Main
begin

unbundle bit_operations_syntax

section \<open>The verticalization engine of lcpcli (parsers/\_parser.py)\<close>

text \<open>
  A shallow embedding of class \<open>Parser\<close>: \<open>upload_new_doc\<close>, \<open>write_token_deps\<close>,
  \<open>aligned_entity\<close>, \<open>close_aligned_entity\<close>, \<open>close_upload_files\<close> and
  \<open>generate_upload_files_generator\<close>. Output files are lists of rows, dictionaries are
  association lists in insertion order, every exception of the source is a value of
  \<open>py_error\<close>, and the mutable parser object is passed explicitly.
\<close>

subsection \<open>Errors and results\<close>

datatype py_error = KeyError | IndexError | AssertionError | TypeError | RecursionError

definition bind_r :: "py_error + 'a \<Rightarrow> ('a \<Rightarrow> py_error + 'b) \<Rightarrow> py_error + 'b" where
  "bind_r m f = (case m of Inl e \<Rightarrow> Inl e | Inr x \<Rightarrow> f x)"

fun foldl_r :: "('s \<Rightarrow> 'a \<Rightarrow> py_error + 's) \<Rightarrow> 's \<Rightarrow> 'a list \<Rightarrow> py_error + 's" where
  "foldl_r f s [] = Inr s"
| "foldl_r f s (x # xs) = (case f s x of Inl e \<Rightarrow> Inl e | Inr s' \<Rightarrow> foldl_r f s' xs)"

subsection \<open>Python strings\<close>

text \<open>
  A string is the list of its characters, each a code point below 256; \<open>length\<close> is
  Python's \<open>len\<close>. \<open>is_space\<close> holds of the characters \<open>str.strip\<close> removes: the code
  points of that range for which \<open>str.isspace\<close> is true (U+0009 to U+000D, U+001C to
  U+001F, U+0020, U+0085 and U+00A0). \<open>lower\<close> is \<open>str.lower\<close>, which in that range maps
  the capitals A to Z and U+00C0 to U+00DE, the sign U+00D7 apart, to the letter 32
  places further.
\<close>

definition is_space :: "char \<Rightarrow> bool" where
  "is_space c = (c \<in> set [CHR 0x09, CHR 0x0A, CHR 0x0B, CHR 0x0C, CHR 0x0D,
                            CHR 0x1C, CHR 0x1D, CHR 0x1E, CHR 0x1F, CHR '' '',
                            CHR 0x85, CHR 0xA0])"

definition lstrip :: "string \<Rightarrow> string" where
  "lstrip s = dropWhile is_space s"

definition rstrip :: "string \<Rightarrow> string" where
  "rstrip s = rev (dropWhile is_space (rev s))"

definition strip :: "string \<Rightarrow> string" where
  "strip s = rstrip (lstrip s)"

definition latin1_capitals :: string where
  "latin1_capitals =
       [CHR 0xC0, CHR 0xC1, CHR 0xC2, CHR 0xC3, CHR 0xC4, CHR 0xC5, CHR 0xC6, CHR 0xC7,
        CHR 0xC8, CHR 0xC9, CHR 0xCA, CHR 0xCB, CHR 0xCC, CHR 0xCD, CHR 0xCE, CHR 0xCF,
        CHR 0xD0, CHR 0xD1, CHR 0xD2, CHR 0xD3, CHR 0xD4, CHR 0xD5, CHR 0xD6, CHR 0xD8,
        CHR 0xD9, CHR 0xDA, CHR 0xDB, CHR 0xDC, CHR 0xDD, CHR 0xDE]"

definition latin1_smalls :: string where
  "latin1_smalls =
       [CHR 0xE0, CHR 0xE1, CHR 0xE2, CHR 0xE3, CHR 0xE4, CHR 0xE5, CHR 0xE6, CHR 0xE7,
        CHR 0xE8, CHR 0xE9, CHR 0xEA, CHR 0xEB, CHR 0xEC, CHR 0xED, CHR 0xEE, CHR 0xEF,
        CHR 0xF0, CHR 0xF1, CHR 0xF2, CHR 0xF3, CHR 0xF4, CHR 0xF5, CHR 0xF6, CHR 0xF8,
        CHR 0xF9, CHR 0xFA, CHR 0xFB, CHR 0xFC, CHR 0xFD, CHR 0xFE]"

definition lower_char :: "char \<Rightarrow> char" where
  "lower_char c =
     (case map_of (zip (''ABCDEFGHIJKLMNOPQRSTUVWXYZ'' @ latin1_capitals)
                       (''abcdefghijklmnopqrstuvwxyz'' @ latin1_smalls)) c of
        None \<Rightarrow> c | Some d \<Rightarrow> d)"

definition lower :: "string \<Rightarrow> string" where
  "lower s = map lower_char s"

text \<open>\<open>s.split(sep)\<close> for a one-character separator: never the empty list.\<close>

fun split_on :: "char \<Rightarrow> string \<Rightarrow> string list" where
  "split_on sep [] = [[]]"
| "split_on sep (c # cs) =
     (if c = sep then [] # split_on sep cs
      else (case split_on sep cs of
              [] \<Rightarrow> [[c]]
            | w # ws \<Rightarrow> (c # w) # ws))"

text \<open>\<open>sep.join(xs)\<close>.\<close>

fun join :: "string \<Rightarrow> string list \<Rightarrow> string" where
  "join sep [] = []"
| "join sep [x] = x"
| "join sep (x # y # ys) = x @ sep @ join sep (y # ys)"

definition startswith :: "string \<Rightarrow> string \<Rightarrow> bool" where
  "startswith s p = (take (length p) s = p)"

text \<open>\<open>str(n)\<close> for an integer, in decimal.\<close>

definition digit_char :: "nat \<Rightarrow> char" where
  "digit_char d = ''0123456789'' ! d"

fun str_nat :: "nat \<Rightarrow> string" where
  "str_nat n = (if n < 10 then [digit_char n] else str_nat (n div 10) @ [digit_char (n mod 10)])"

declare str_nat.simps [simp del]

definition str_int :: "int \<Rightarrow> string" where
  "str_int i = (if i < 0 then CHR ''-'' # str_nat (nat (- i)) else str_nat (nat i))"

text \<open>\<open>bin(n)[2:]\<close> for \<open>n \<ge> 0\<close>, and \<open>int(s, 2)\<close> for a string of binary digits.\<close>

fun bin_nat :: "nat \<Rightarrow> string" where
  "bin_nat n = (if n < 2 then [digit_char n] else bin_nat (n div 2) @ [digit_char (n mod 2)])"

declare bin_nat.simps [simp del]

definition int_base2 :: "string \<Rightarrow> nat" where
  "int_base2 s = foldl (\<lambda>acc c. 2 * acc + (if c = CHR ''1'' then 1 else 0)) 0 s"

text \<open>The interval literal \<open>[low,high)\<close>.\<close>

definition range_str :: "string \<Rightarrow> string \<Rightarrow> string" where
  "range_str lo hi = ''['' @ lo @ '','' @ hi @ '')''"

subsection \<open>Python dictionaries, in insertion order\<close>

type_synonym 'v dict = "(string \<times> 'v) list"

definition dict_get :: "'v dict \<Rightarrow> string \<Rightarrow> 'v option" where
  "dict_get d k = map_of d k"

definition dict_has :: "'v dict \<Rightarrow> string \<Rightarrow> bool" where
  "dict_has d k = (map_of d k \<noteq> None)"

fun dict_set :: "'v dict \<Rightarrow> string \<Rightarrow> 'v \<Rightarrow> 'v dict" where
  "dict_set [] k v = [(k, v)]"
| "dict_set ((k', v') # d) k v = (if k' = k then (k, v) # d else (k', v') # dict_set d k v)"

definition dict_del :: "'v dict \<Rightarrow> string \<Rightarrow> 'v dict" where
  "dict_del d k = filter (\<lambda>kv. fst kv \<noteq> k) d"

definition dict_keys :: "'v dict \<Rightarrow> string list" where
  "dict_keys d = map fst d"


definition dict_values :: "'v dict \<Rightarrow> 'v list" where
  "dict_values d = map snd d"

subsection \<open>The record model (lcpcli.utils, not under src)\<close>

text \<open>
  Modelled from the spec: the Attribute variants, Token, Segment and Document of
  section 3 (class definitions of \<open>lcpcli.utils\<close> are missing). An attribute carries its
  own name; the value of a Categorical, Text or Dependency attribute is a string (for a
  Dependency the head reference, with the edge label beside it), the value of a Meta
  attribute is its key/value mapping. A document carries an object identity, because
  the pipeline compares documents with \<open>is not\<close>; its \<open>meta\<close> attribute, always a
  Meta, is the field \<open>d_meta\<close> (the mapping, \<open>None\<close> when the document has none) and
  \<open>d_attributes\<close> holds the other attributes.
\<close>

datatype attribute =
    Categorical string string
  | Text string string
  | Meta string "string dict"
  | Dependency string string string

fun attr_name :: "attribute \<Rightarrow> string" where
  "attr_name (Categorical n v) = n"
| "attr_name (Text n v) = n"
| "attr_name (Meta n m) = n"
| "attr_name (Dependency n v l) = n"

text \<open>\<open>str(d)\<close> for a mapping of strings.\<close>

definition str_dict :: "string dict \<Rightarrow> string" where
  "str_dict m =
     ''{'' @ join '', '' (map (\<lambda>kv. [CHR 0x27] @ fst kv @ [CHR 0x27] @ '': '' @ [CHR 0x27] @ snd kv @ [CHR 0x27]) m) @ ''}''"

text \<open>\<open>str(a.value)\<close>, \<open>bool(a.value)\<close> and \<open>len(a.value)\<close>.\<close>

fun attr_str :: "attribute \<Rightarrow> string" where
  "attr_str (Categorical n v) = v"
| "attr_str (Text n v) = v"
| "attr_str (Meta n m) = str_dict m"
| "attr_str (Dependency n v l) = v"

fun attr_truthy :: "attribute \<Rightarrow> bool" where
  "attr_truthy (Categorical n v) = (v \<noteq> [])"
| "attr_truthy (Text n v) = (v \<noteq> [])"
| "attr_truthy (Meta n m) = (m \<noteq> [])"
| "attr_truthy (Dependency n v l) = (v \<noteq> [])"

fun attr_len :: "attribute \<Rightarrow> nat" where
  "attr_len (Categorical n v) = length v"
| "attr_len (Text n v) = length v"
| "attr_len (Meta n m) = length m"
| "attr_len (Dependency n v l) = length v"

fun is_Text :: "attribute \<Rightarrow> bool" where
  "is_Text (Text n v) = True"
| "is_Text a = False"

fun is_Dependency :: "attribute \<Rightarrow> bool" where
  "is_Dependency (Dependency n v l) = True"
| "is_Dependency a = False"

fun is_Text_or_Meta :: "attribute \<Rightarrow> bool" where
  "is_Text_or_Meta (Text n v) = True"
| "is_Text_or_Meta (Meta n m) = True"
| "is_Text_or_Meta a = False"

record token =
  t_id :: string
  spaceAfter :: bool
  t_frame_range :: "(int \<times> int) option"
  t_attributes :: "attribute dict"

record segment =
  s_id :: string
  s_attributes :: "attribute dict"
  s_tokens :: "token list"

record document =
  d_oid :: nat
  d_id :: string
  d_meta :: "string dict option"
  d_attributes :: "attribute dict"
  d_frame_range :: "int \<times> int"
  d_char_range_start :: int

text \<open>\<open>Document()\<close>: no attributes, frame range \<open>[0, 0]\<close>.\<close>

definition Document :: document where
  "Document = \<lparr>d_oid = 0, d_id = [], d_meta = None, d_attributes = [], d_frame_range = (0, 0),
     d_char_range_start = 0\<rparr>"

subsection \<open>The schema (self.config)\<close>

record attr_cfg =
  a_type :: "string option"
  a_isGlobal :: bool
  a_values :: "string list option"

record layer_cfg =
  l_attributes :: "attr_cfg dict"
  l_nlabels :: "nat option"

record media_slot =
  isOptional :: "bool option"
  mediaType :: "string option"

record config =
  c_layer :: "layer_cfg dict"
  c_firstClass :: "string dict option"
  c_mediaSlots :: "media_slot dict"

definition empty_layer :: layer_cfg where
  "empty_layer = \<lparr>l_attributes = [], l_nlabels = None\<rparr>"

text \<open>
  Modelled from the spec: \<open>get_ci\<close> of \<open>lcpcli.utils\<close> is missing, and the spec only
  says that tables get their layer's schema; it is taken to be the case-insensitive
  lookup its name says, with the empty mapping for an absent key.
\<close>

definition get_ci :: "layer_cfg dict \<Rightarrow> string \<Rightarrow> layer_cfg" where
  "get_ci d k =
     (case filter (\<lambda>kv. lower (fst kv) = lower k) d of
        [] \<Rightarrow> empty_layer | kv # _ \<Rightarrow> snd kv)"

subsection \<open>Tables (lcpcli.utils, not under src)\<close>

text \<open>
  Modelled from the spec: a NestedSet node of section 3 (token identifier, edge label,
  output row identifier, left and right bounds, parent link, children, consumed flag).
  A link holds the token id of the node it points to; every linked node is an entry of
  the same segment's buffer.
\<close>

record nested_set =
  ns_id :: string
  ns_label :: string
  ns_cursor_id :: nat
  ns_parent :: "string option"
  ns_children :: "string list"
  ns_left :: int
  ns_right :: int
  ns_consumed :: bool

definition NestedSet :: "string \<Rightarrow> string \<Rightarrow> nat \<Rightarrow> nested_set" where
  "NestedSet i l c = \<lparr>ns_id = i, ns_label = l, ns_cursor_id = c, ns_parent = None,
     ns_children = [], ns_left = 0, ns_right = 0, ns_consumed = False\<rparr>"

record dep_entry =
  head_id :: string
  nested_set :: nested_set

text \<open>
  The dictionary \<open>table.current_entity\<close>, one optional field per key the source ever
  sets; the empty dictionary has no entry. \<open>range_low\<close> and \<open>frame_range_start\<close> are
  stored by the source as \<open>str\<close> of a cursor and read back with \<open>int\<close>: the model
  keeps the integer. A column is a string, the id of a lookup column in decimal.
\<close>

record entity =
  e_id :: "string option"
  e_cols :: "string list option"
  e_range_low :: "int option"
  e_frame_range_start :: "int option"

definition empty_entity :: entity where
  "empty_entity = \<lparr>e_id = None, e_cols = None, e_range_low = None, e_frame_range_start = None\<rparr>"

text \<open>
  Modelled from the spec: Table, TokenTable and LookupTable of sections 3 and 4.2, as
  one record. \<open>rows\<close> is the file, one list of fields per line; the cursor starts at 1.
  \<open>deps\<close> maps a segment id to its buffered tokens (the \<open>Info\<close> key that makes a
  buffer truthy from its creation is left out), \<open>cache\<close> is the string-to-id cache of a
  LookupTable.
\<close>

record table =
  rows :: "string list list"
  cursor :: nat
  col_names :: "string list"
  non_null_attributes :: "string list"
  categorical_values :: "string list dict"
  labels :: "nat dict"
  current_entity :: entity
  deps :: "dep_entry dict dict"
  anchor_right :: int
  cache :: "nat dict"
  tconfig :: layer_cfg

definition Table :: "layer_cfg \<Rightarrow> table" where
  "Table cfg = \<lparr>rows = [], cursor = 1, col_names = [], non_null_attributes = [],
     categorical_values = [], labels = [], current_entity = empty_entity, deps = [],
     anchor_right = 0, cache = [], tconfig = cfg\<rparr>"

text \<open>Modelled from the spec: \<open>write(row)\<close> appends the row to the file (\<open>write\<close> is a keyword of Isabelle).\<close>

definition table_write :: "table \<Rightarrow> string list \<Rightarrow> table" where
  "table_write t row = t\<lparr>rows := rows t @ [row]\<rparr>"

text \<open>
  Modelled from the spec: \<open>get_id(value)\<close> returns the cached id of a value seen
  before, else appends \<open>(new_id, value)\<close> to the store and caches it; ids are 1, 2, ...
  in first-seen order.
\<close>

definition get_id :: "table \<Rightarrow> string \<Rightarrow> nat \<times> table" where
  "get_id t v =
     (case dict_get (cache t) v of
        Some i \<Rightarrow> (i, t)
      | None \<Rightarrow> (cursor t,
          t\<lparr>rows := rows t @ [[str_nat (cursor t), v]],
            cache := dict_set (cache t) v (cursor t),
            cursor := cursor t + 1\<rparr>))"

text \<open>\<open>table.categorical_values[a].add(v)\<close>, creating the set first when absent.\<close>

definition add_categorical :: "table \<Rightarrow> string \<Rightarrow> string \<Rightarrow> table" where
  "add_categorical t a v =
     (let vs = (case dict_get (categorical_values t) a of None \<Rightarrow> [] | Some xs \<Rightarrow> xs)
      in t\<lparr>categorical_values :=
             dict_set (categorical_values t) a (if v \<in> set vs then vs else vs @ [v])\<rparr>)"

subsection \<open>The parser object\<close>

record parser =
  char_range_cur :: int
  frame_range_cur :: int
  tables :: "table dict"
  doc_frames :: "(int \<times> int) dict"
  config :: config
  label_files :: "string list list dict"

text \<open>
  \<open>Parser.__init__\<close>. \<open>label_files\<close> holds the \<open>{table}_labels.csv\<close> side files that
  \<open>close_upload_files\<close> writes.
\<close>

definition Parser :: "config \<Rightarrow> parser" where
  "Parser cfg = \<lparr>char_range_cur = 1, frame_range_cur = 0, tables = [], doc_frames = [],
     config = cfg, label_files = []\<rparr>"

definition set_table :: "parser \<Rightarrow> string \<Rightarrow> table \<Rightarrow> parser" where
  "set_table p k t = p\<lparr>tables := dict_set (tables p) k t\<rparr>"


subsection \<open>upload\_new\_doc\<close>

text \<open>\<open>name in a.value\<close>: a key of a mapping, a substring of a string.\<close>

fun is_substr :: "string \<Rightarrow> string \<Rightarrow> bool" where
  "is_substr n [] = (n = [])"
| "is_substr n (c # cs) = (startswith (c # cs) n \<or> is_substr n cs)"

fun value_contains :: "attribute \<Rightarrow> string \<Rightarrow> bool" where
  "value_contains (Meta n m) k = dict_has m k"
| "value_contains (Categorical n v) k = is_substr k v"
| "value_contains (Text n v) k = is_substr k v"
| "value_contains (Dependency n v l) k = is_substr k v"

text \<open>
  Lines 110-155. The table is the caller's \<open>self._tables["document"]\<close>; the result is
  the parser (its \<open>doc_frames\<close> may change) and the table after the write.
\<close>

definition upload_new_doc ::
  "parser \<Rightarrow> document \<Rightarrow> table \<Rightarrow> string \<Rightarrow> py_error + (parser \<times> table)" where
  "upload_new_doc p doc t doc_name =
     (let meta = d_meta doc;
          has_fr = (snd (d_frame_range doc) \<noteq> 0);
          doc_frame_id = (case meta of
                            None \<Rightarrow> d_id doc
                          | Some m \<Rightarrow> (case dict_get m ''name'' of None \<Rightarrow> d_id doc | Some n \<Rightarrow> n));
          p' = (if has_fr
                then p\<lparr>doc_frames := dict_set (doc_frames p) doc_frame_id (d_frame_range doc)\<rparr>
                else p);
          name_doc = (case meta of
                        None \<Rightarrow> str_nat (cursor t)
                      | Some m \<Rightarrow> (case dict_get m ''name'' of
                                    None \<Rightarrow> str_nat (cursor t) | Some n \<Rightarrow> n));
          has_meta = (case meta of None \<Rightarrow> False | Some m \<Rightarrow> m \<noteq> []);
          others = filter (\<lambda>kv. fst kv \<noteq> ''meta'') (d_attributes doc);
          media_slots = c_mediaSlots (config p);
          media = (case dict_get (d_attributes doc) ''media'' of
                     None \<Rightarrow> Meta ''dummy'' [] | Some a \<Rightarrow> a);
          with_name = (media_slots \<noteq> [] \<and>
                       (\<exists>x \<in> set (dict_values media_slots).
                          mediaType x = Some ''audio'' \<or> mediaType x = Some ''video''));
          col_names =
            [doc_name @ ''_id'', ''char_range'']
            @ (if has_fr then [''frame_range''] else [])
            @ (if has_meta then [''meta''] else [])
            @ map (\<lambda>kv. lower (fst kv)) others
            @ (if with_name then [''name''] else []);
          cols =
            [str_nat (cursor t),
             range_str (str_int (d_char_range_start doc)) (str_int (char_range_cur p - 1))]
            @ (if has_fr
               then [range_str (str_int (fst (d_frame_range doc))) (str_int (snd (d_frame_range doc)))]
               else [])
            @ (case meta of None \<Rightarrow> [] | Some m \<Rightarrow> if m \<noteq> [] then [strip (str_dict m)] else [])
            @ map (\<lambda>kv. strip (attr_str (snd kv))) others
            @ (if with_name then [name_doc] else []);
          t1 = (if cursor t = 1 then table_write t col_names else t);
          t2 = table_write t1 cols
      in if \<exists>kv \<in> set media_slots.
              \<not> (isOptional (snd kv) \<noteq> Some False \<or> value_contains media (fst kv))
         then Inl AssertionError
         else Inr (p', t2\<lparr>cursor := cursor t2 + 1\<rparr>))"

subsection \<open>write\_token\_deps\<close>

definition upd_ns :: "dep_entry dict \<Rightarrow> string \<Rightarrow> (nested_set \<Rightarrow> nested_set) \<Rightarrow> dep_entry dict" where
  "upd_ns toks i f =
     map (\<lambda>kv. if fst kv = i then (fst kv, (snd kv)\<lparr>nested_set := f (nested_set (snd kv))\<rparr>) else kv) toks"

text \<open>
  Modelled from the spec: \<open>parent.add(child)\<close> links the child into its head's nested
  set: the child joins the parent's children and records the parent.
\<close>

definition ns_add :: "dep_entry dict \<Rightarrow> string \<Rightarrow> string \<Rightarrow> dep_entry dict" where
  "ns_add toks parent child =
     upd_ns (upd_ns toks child (\<lambda>n. n\<lparr>ns_parent := Some parent\<rparr>))
       parent (\<lambda>n. n\<lparr>ns_children := ns_children n @ [child]\<rparr>)"

text \<open>
  Modelled from the spec: \<open>compute_anchors\<close> numbers the tree under a node: the node
  receives \<open>left\<close> on entry and \<open>right\<close> after all its children are visited, the root
  starting at 1. \<open>all_ids\<close> lists the node and its descendants. Both recurse along the
  children links; the depth of the recursion is bounded (Python's recursion limit), here
  by the fuel, and running out is a \<open>RecursionError\<close>.
\<close>

fun compute_anchors ::
  "nat \<Rightarrow> dep_entry dict \<Rightarrow> string \<Rightarrow> int \<Rightarrow> py_error + (dep_entry dict \<times> int)" where
  "compute_anchors 0 toks i c = Inl RecursionError"
| "compute_anchors (Suc fuel) toks i c =
     (case dict_get toks i of
        None \<Rightarrow> Inl KeyError
      | Some e \<Rightarrow>
          (case foldl_r (\<lambda>tc ch. compute_anchors fuel (fst tc) ch (snd tc))
                  (upd_ns toks i (\<lambda>n. n\<lparr>ns_left := c\<rparr>), c + 1)
                  (ns_children (nested_set e)) of
             Inl err \<Rightarrow> Inl err
           | Inr tc \<Rightarrow> Inr (upd_ns (fst tc) i (\<lambda>n. n\<lparr>ns_right := snd tc\<rparr>), snd tc + 1)))"

fun all_ids :: "nat \<Rightarrow> dep_entry dict \<Rightarrow> string \<Rightarrow> py_error + string list" where
  "all_ids 0 toks i = Inl RecursionError"
| "all_ids (Suc fuel) toks i =
     (case dict_get toks i of
        None \<Rightarrow> Inl KeyError
      | Some e \<Rightarrow>
          foldl_r (\<lambda>acc ch. case all_ids fuel toks ch of Inl err \<Rightarrow> Inl err | Inr ids \<Rightarrow> Inr (acc @ ids))
            [i] (ns_children (nested_set e)))"

text \<open>Lines 168-175: link the nested sets, remembering the last entry with an empty head.\<close>

fun link_tokens ::
  "dep_entry dict \<Rightarrow> (string \<times> dep_entry) list \<Rightarrow> string option \<Rightarrow> dep_entry dict \<times> string option" where
  "link_tokens toks [] root = (toks, root)"
| "link_tokens toks (kv # rest) root =
     (let hid = head_id (snd kv);
          root' = (if hid = [] then Some (fst kv) else root)
      in if \<not> dict_has toks hid then link_tokens toks rest root'
         else link_tokens (ns_add toks hid (fst kv)) rest root')"

text \<open>Lines 186-204: one row per node of the tree that is not consumed yet.\<close>

fun emit_nodes ::
  "table \<Rightarrow> int \<Rightarrow> dep_entry dict \<Rightarrow> string list \<Rightarrow> py_error + (table \<times> dep_entry dict)" where
  "emit_nodes t ar toks [] = Inr (t, toks)"
| "emit_nodes t ar toks (i # ids) =
     (case dict_get toks i of
        None \<Rightarrow> Inl KeyError
      | Some e \<Rightarrow>
          (let ns = nested_set e in
           if ns_consumed ns then emit_nodes t ar toks ids
           else
             (let parent_id =
                    (case ns_parent ns of
                       None \<Rightarrow> []
                     | Some q \<Rightarrow> (case dict_get toks q of
                                   None \<Rightarrow> []
                                 | Some pe \<Rightarrow> str_nat (ns_cursor_id (nested_set pe))))
              in emit_nodes
                   (table_write t
                      [parent_id, str_nat (ns_cursor_id ns), ns_label ns,
                       str_int (ar + ns_left ns), str_int (ar + ns_right ns)])
                   ar (upd_ns toks i (\<lambda>n. n\<lparr>ns_consumed := True\<rparr>)) ids)))"

text \<open>Lines 208-209: \<open>tokens.pop(id)\<close> on the filtered copy; a second pop of an id raises.\<close>

fun pop_ids :: "string list \<Rightarrow> string list \<Rightarrow> py_error + string list" where
  "pop_ids keys [] = Inr keys"
| "pop_ids keys (i # ids) =
     (if i \<in> set keys then pop_ids (removeAll i keys) ids else Inl KeyError)"

text \<open>
  The body of the loop over \<open>table.deps.items()\<close> for one segment that is not the one
  being worked on. The nested sets are shared with the buffer, so their links and flags
  persist in \<open>table.deps\<close>; the pops act on the copy and the segment is evicted only when
  the copy ends empty. The result tells whether the segment joins \<open>empty_segments\<close>.
  The assertion of lines 177-182 fails exactly when no entry had an empty head (a
  NestedSet object is truthy), and the handler moves on to the next segment.
\<close>

definition deps_segment ::
  "table \<Rightarrow> string \<Rightarrow> dep_entry dict \<Rightarrow> py_error + (table \<times> bool)" where
  "deps_segment t segment_id tokens =
     (let linked = link_tokens tokens tokens None;
          toks = fst linked;
          t1 = t\<lparr>deps := dict_set (deps t) segment_id toks\<rparr>;
          anchor = anchor_right t;
          fuel = Suc (length toks)
      in case snd linked of
           None \<Rightarrow> Inr (t1, False)
         | Some root \<Rightarrow>
             (case dict_get toks root of
                None \<Rightarrow> Inl KeyError
              | Some re \<Rightarrow>
                  if ns_consumed (nested_set re) then Inr (t1, False)
                  else
                    bind_r (compute_anchors fuel toks root 1) (\<lambda>tc.
                    bind_r (all_ids fuel (fst tc) root) (\<lambda>ids.
                    bind_r (emit_nodes t1 anchor (fst tc) ids) (\<lambda>tt.
                      (let root_right = (case dict_get (snd tt) root of
                                           None \<Rightarrow> 0 | Some e \<Rightarrow> ns_right (nested_set e));
                           toks' = upd_ns (snd tt) root (\<lambda>n. n\<lparr>ns_consumed := True\<rparr>);
                           t2 = (fst tt)\<lparr>anchor_right := anchor + root_right,
                                        deps := dict_set (deps (fst tt)) segment_id toks'\<rparr>
                       in bind_r (pop_ids (dict_keys toks') ids) (\<lambda>left.
                            Inr (t2, left = []))))))))"

text \<open>Lines 157-214.\<close>

fun deps_segments ::
  "table \<Rightarrow> string \<Rightarrow> (string \<times> dep_entry dict) list \<Rightarrow> string list \<Rightarrow> py_error + (table \<times> string list)" where
  "deps_segments t working_on [] empty_segments = Inr (t, empty_segments)"
| "deps_segments t working_on (kv # rest) empty_segments =
     (if fst kv = working_on then deps_segments t working_on rest empty_segments
      else (case deps_segment t (fst kv) (snd kv) of
              Inl e \<Rightarrow> Inl e
            | Inr tb \<Rightarrow>
                deps_segments (fst tb) working_on rest
                  (if snd tb then empty_segments @ [fst kv] else empty_segments)))"

definition write_token_deps :: "table \<Rightarrow> string \<Rightarrow> py_error + table" where
  "write_token_deps t working_on =
     (case deps_segments t working_on (deps t) [] of
        Inl e \<Rightarrow> Inl e
      | Inr te \<Rightarrow> Inr ((fst te)\<lparr>deps := foldl dict_del (deps (fst te)) (snd te)\<rparr>))"


subsection \<open>aligned\_entity and close\_aligned\_entity\<close>

text \<open>
  An entry of \<open>aligned_entities\<close>: the lines of the reference file \<open>fn\<close>, as
  \<open>readline\<close> returns them, and the value \<open>is_time_anchored\<close> (lcpcli.utils, missing)
  gives for the layer the entity contains.
\<close>

record aligned =
  fn :: "string list"
  time_anchored :: bool

text \<open>Lines 274-281: the bitstring of one labels column, extending the vocabulary.\<close>

definition label_step :: "nat dict \<times> nat \<Rightarrow> string \<Rightarrow> nat dict \<times> nat" where
  "label_step lb label =
     (let l = strip label;
          lbls = fst lb;
          idx = (case dict_get lbls l of None \<Rightarrow> length lbls | Some i \<Rightarrow> i);
          bs = CHR ''1'' # replicate (nat (int idx - 1)) (CHR ''0'')
      in (dict_set lbls l idx, snd lb OR int_base2 bs))"

definition pack_labels :: "nat dict \<Rightarrow> string \<Rightarrow> nat dict \<times> string" where
  "pack_labels lbls s =
     (let r = foldl label_step (lbls, 0) (split_on (CHR '','') s)
      in (fst r, bin_nat (snd r)))"

definition type_or_empty :: "attr_cfg dict \<Rightarrow> string \<Rightarrow> string" where
  "type_or_empty la k =
     (case dict_get la k of
        None \<Rightarrow> []
      | Some props \<Rightarrow> (case a_type props of None \<Rightarrow> [] | Some ty \<Rightarrow> ty))"

text \<open>Lines 270-281: the loop over \<open>enumerate(table.col_names)\<close>.\<close>

fun labels_cols ::
  "attr_cfg dict \<Rightarrow> nat dict \<Rightarrow> (nat \<times> string) list \<Rightarrow> string list \<Rightarrow> py_error + (nat dict \<times> string list)" where
  "labels_cols la lbls [] cols = Inr (lbls, cols)"
| "labels_cols la lbls (nc # rest) cols =
     (if type_or_empty la (snd nc) \<noteq> ''labels'' then labels_cols la lbls rest cols
      else if length cols \<le> fst nc then Inl IndexError
      else (let r = pack_labels lbls (cols ! fst nc)
            in labels_cols la (fst r) rest (cols[fst nc := snd r])))"

text \<open>
  Lines 266-301: write the row of the entity that is open. The source reads
  \<open>ce["cols"]\<close>, \<open>ce["range_low"]\<close> and \<open>ce["frame_range_start"]\<close>; an absent key is a
  \<open>KeyError\<close>.
\<close>

definition close_entity ::
  "parser \<Rightarrow> table \<Rightarrow> attr_cfg dict \<Rightarrow> bool \<Rightarrow> py_error + table" where
  "close_entity p t la has_frame_range =
     (let ce = current_entity t in
      case e_cols ce of
        None \<Rightarrow> Inl KeyError
      | Some entity_cols \<Rightarrow>
          (case labels_cols la (labels t) (zip [0..<length (col_names t)] (col_names t)) entity_cols of
             Inl e \<Rightarrow> Inl e
           | Inr lc \<Rightarrow>
               (case e_range_low ce of
                  None \<Rightarrow> Inl KeyError
                | Some range_low \<Rightarrow>
                    (let range_up = (if char_range_cur p - 1 \<le> range_low then range_low + 1
                                     else char_range_cur p - 1);
                         cols_to_write = [str_nat (cursor t)] @ snd lc
                                         @ [range_str (str_int range_low) (str_int range_up)];
                         t1 = t\<lparr>labels := fst lc\<rparr>
                     in if has_frame_range then
                          (case e_frame_range_start ce of
                             None \<Rightarrow> Inl KeyError
                           | Some lower_frame_range \<Rightarrow>
                               (let upper_frame_range =
                                      (if frame_range_cur p \<le> lower_frame_range
                                       then lower_frame_range + 1 else frame_range_cur p);
                                    t2 = table_write t1
                                           (cols_to_write
                                            @ [range_str (str_int lower_frame_range)
                                                 (str_int upper_frame_range)])
                                in Inr (t2\<lparr>cursor := cursor t2 + 1\<rparr>)))
                        else (let t2 = table_write t1 cols_to_write
                              in Inr (t2\<lparr>cursor := cursor t2 + 1\<rparr>))))))"

text \<open>
  Lines 309-314: the first line of the reference file whose first field, stripped, is
  the foreign key; reading stops at the end of the file (an empty \<open>readline\<close>).
\<close>

fun find_line :: "string list \<Rightarrow> string \<Rightarrow> string list option" where
  "find_line [] fk = None"
| "find_line (l # ls) fk =
     (if l = [] then None
      else (case split_on (CHR 0x09) l of
              [] \<Rightarrow> find_line ls fk
            | c # cs \<Rightarrow> if strip c = fk then Some (c # cs) else find_line ls fk))"

text \<open>Lines 316-338: the columns of the entity, text columns through their lookup table.\<close>

fun read_cols ::
  "parser \<Rightarrow> table \<Rightarrow> string \<Rightarrow> attr_cfg dict \<Rightarrow> nat \<Rightarrow> string list \<Rightarrow> string list
     \<Rightarrow> py_error + (parser \<times> table \<times> string list)" where
  "read_cols p t aname_low la n [] acc = Inr (p, t, acc)"
| "read_cols p t aname_low la n (col # cols) acc =
     (if length (col_names t) \<le> n then Inl IndexError
      else
        (let col_name = col_names t ! n;
             attr = (case filter (\<lambda>x. lower x = col_name \<or> lower x @ ''_id'' = col_name)
                             (dict_keys la) of
                       [] \<Rightarrow> col_name | x # _ \<Rightarrow> x);
             ctype = (case dict_get la attr of None \<Rightarrow> None | Some props \<Rightarrow> a_type props);
             t' = (if ctype = Some ''categorical'' then add_categorical t attr (strip col) else t)
         in if ctype = Some ''text'' then
              (case dict_get (tables p) (aname_low @ ''_'' @ col_name) of
                 None \<Rightarrow> Inl KeyError
               | Some lookup_table \<Rightarrow>
                   (let r = get_id lookup_table (strip col)
                    in read_cols (set_table p (aname_low @ ''_'' @ col_name) (snd r)) t'
                         aname_low la (Suc n) cols (acc @ [str_nat (fst r)])))
            else read_cols p t' aname_low la (Suc n) cols (acc @ [strip col])))"

text \<open>Lines 302-343: open the entity of foreign key \<open>fk\<close>.\<close>

definition open_entity ::
  "parser \<Rightarrow> table \<Rightarrow> string \<Rightarrow> string \<Rightarrow> attr_cfg dict \<Rightarrow> aligned
     \<Rightarrow> py_error + (parser \<times> table)" where
  "open_entity p t aname_low fk la ae =
     (if fk = [] \<or> strip fk = ''_'' then Inr (p, t\<lparr>current_entity := empty_entity\<rparr>)
      else
        (let fr = (if time_anchored ae then Some (frame_range_cur p) else None) in
         case find_line (fn ae) fk of
           None \<Rightarrow>
             Inr (p, t\<lparr>current_entity :=
                         \<lparr>e_id = Some fk, e_cols = None, e_range_low = None,
                          e_frame_range_start = fr\<rparr>\<rparr>)
         | Some line \<Rightarrow>
             (case read_cols p t aname_low la 0 (tl line) [] of
                Inl e \<Rightarrow> Inl e
              | Inr ptc \<Rightarrow>
                  Inr (fst ptc, (fst (snd ptc))\<lparr>current_entity :=
                         \<lparr>e_id = Some fk, e_cols = Some (snd (snd ptc)),
                          e_range_low = Some (char_range_cur p),
                          e_frame_range_start = fr\<rparr>\<rparr>))))"

text \<open>Lines 235-257: create the entity's table and its lookup tables, and write the header.\<close>

fun entity_header ::
  "parser \<Rightarrow> string \<Rightarrow> attr_cfg dict \<Rightarrow> string list \<Rightarrow> string list
     \<Rightarrow> py_error + (parser \<times> string list)" where
  "entity_header p aname_low la [] acc = Inr (p, acc)"
| "entity_header p aname_low la (cn # cns) acc =
     (case dict_get la cn of
        None \<Rightarrow> Inl AssertionError
      | Some props \<Rightarrow>
          if a_type props = Some ''text''
          then entity_header (set_table p (aname_low @ ''_'' @ cn) (Table empty_layer))
                 aname_low la cns (acc @ [cn @ ''_id''])
          else entity_header p aname_low la cns (acc @ [cn]))"

definition create_entity_table ::
  "parser \<Rightarrow> string \<Rightarrow> string option \<Rightarrow> attr_cfg dict \<Rightarrow> aligned \<Rightarrow> py_error + parser" where
  "create_entity_table p aname_low layer_name la ae =
     (let cfg = (case layer_name of None \<Rightarrow> empty_layer | Some ln \<Rightarrow> get_ci (c_layer (config p)) ln);
          header = (case fn ae of [] \<Rightarrow> [] | l # _ \<Rightarrow> l);
          cns = tl (split_on (CHR 0x09) (rstrip header));
          p1 = set_table p aname_low ((Table cfg)\<lparr>col_names := cns\<rparr>)
      in case entity_header p1 aname_low la cns [aname_low @ ''_id''] of
           Inl e \<Rightarrow> Inl e
         | Inr pc \<Rightarrow>
             (case dict_get (tables (fst pc)) aname_low of
                None \<Rightarrow> Inl KeyError
              | Some t \<Rightarrow>
                  Inr (set_table (fst pc) aname_low
                         (table_write t
                            (snd pc @ [''char_range'']
                             @ (if time_anchored ae then [''frame_range''] else []))))))"

text \<open>Lines 221-229: the layer named like the attribute, whatever the case, and its attributes.\<close>

definition find_layer :: "config \<Rightarrow> string \<Rightarrow> string option" where
  "find_layer cfg aname_low =
     (case filter (\<lambda>x. lower x = aname_low) (dict_keys (c_layer cfg)) of
        [] \<Rightarrow> None | x # _ \<Rightarrow> Some x)"

definition layer_attrs :: "config \<Rightarrow> string option \<Rightarrow> attr_cfg dict" where
  "layer_attrs cfg layer_name =
     (case layer_name of
        None \<Rightarrow> []
      | Some ln \<Rightarrow> (case dict_get (c_layer cfg) ln of None \<Rightarrow> [] | Some lp \<Rightarrow> l_attributes lp))"

text \<open>Lines 216-343.\<close>

definition aligned_entity :: "parser \<Rightarrow> attribute \<Rightarrow> aligned dict \<Rightarrow> py_error + parser" where
  "aligned_entity p attribute aligned_entities =
     (let aname_low = lower (attr_name attribute) in
      if \<not> is_Text attribute then Inl AssertionError
      else
        (let layer_name = find_layer (config p) aname_low;
             la = layer_attrs (config p) layer_name
         in case dict_get aligned_entities aname_low of
              None \<Rightarrow> Inl KeyError
            | Some ae \<Rightarrow>
                bind_r (if dict_has (tables p) aname_low then Inr p
                        else create_entity_table p aname_low layer_name la ae) (\<lambda>p1.
                  case dict_get (tables p1) aname_low of
                    None \<Rightarrow> Inl KeyError
                  | Some t \<Rightarrow>
                      (let fk = strip (attr_str attribute);
                           ce = current_entity t
                       in if fk = (case e_id ce of None \<Rightarrow> [] | Some i \<Rightarrow> i) then Inr p1
                          else
                            bind_r (if ce \<noteq> empty_entity
                                    then close_entity p1 t la (time_anchored ae) else Inr t) (\<lambda>t1.
                            bind_r (open_entity p1 t1 aname_low fk la ae) (\<lambda>pt.
                              Inr (set_table (fst pt) aname_low (snd pt))))))))"

text \<open>Lines 345-350.\<close>

definition close_aligned_entity :: "parser \<Rightarrow> string \<Rightarrow> aligned dict \<Rightarrow> py_error + parser" where
  "close_aligned_entity p name aligned_entities =
     bind_r (aligned_entity p (Text name ''dummy'') aligned_entities) (\<lambda>p1.
       case dict_get (tables p1) name of
         None \<Rightarrow> Inr p1
       | Some t \<Rightarrow> Inr (set_table p1 name (t\<lparr>current_entity := empty_entity\<rparr>)))"


subsection \<open>close\_upload\_files\<close>

text \<open>
  The file of a table is re-read as text: a row is joined with tabs (modelled from the
  spec: a tab-separated file), stripped on the right and split again. Fields are taken
  to hold no line break.
\<close>

definition pad_bits :: "nat \<Rightarrow> string \<Rightarrow> string" where
  "pad_bits nlabels bits =
     (if length bits < nlabels then replicate (nlabels - length bits) (CHR ''0'') @ bits else bits)"

text \<open>\<open>cols[n]\<close> for a Python index: a negative one counts from the end.\<close>

definition py_index :: "nat \<Rightarrow> int \<Rightarrow> nat option" where
  "py_index len n =
     (let j = (if n < 0 then int len + n else n)
      in if 0 \<le> j \<and> j < int len then Some (nat j) else None)"

text \<open>Lines 385-390: the header line reports the column of each labels attribute.\<close>

fun header_cols :: "(string \<times> int) list \<Rightarrow> (nat \<times> string) list \<Rightarrow> (string \<times> int) list" where
  "header_cols las [] = las"
| "header_cols las (nc # rest) =
     header_cols
       (map (\<lambda>kv. if startswith (lower (snd nc)) (lower (fst kv)) then (fst kv, int (fst nc)) else kv) las)
       rest"

text \<open>Lines 393-400: a data line, each labels column padded on the left.\<close>

fun pad_cols :: "nat \<Rightarrow> int list \<Rightarrow> string list \<Rightarrow> py_error + string list" where
  "pad_cols nlabels [] cols = Inr cols"
| "pad_cols nlabels (n # ns) cols =
     (case py_index (length cols) n of
        None \<Rightarrow> Inl IndexError
      | Some j \<Rightarrow> pad_cols nlabels ns (cols[j := pad_bits nlabels (cols ! j)]))"

text \<open>Lines 377-401: the pass over the lines of the file.\<close>

fun rewrite_lines ::
  "nat \<Rightarrow> (string \<times> int) list \<Rightarrow> string list list \<Rightarrow> string list list \<Rightarrow> py_error + string list list" where
  "rewrite_lines nlabels las [] out = Inr out"
| "rewrite_lines nlabels las (row # rest) out =
     (let cols = split_on (CHR 0x09) (rstrip (join [CHR 0x09] row))
      in if (case las of [] \<Rightarrow> False | kv # _ \<Rightarrow> snd kv = - 1)
         then rewrite_lines nlabels (header_cols las (zip [0..<length cols] cols)) rest (out @ [cols])
         else (case pad_cols nlabels (map snd las) cols of
                 Inl e \<Rightarrow> Inl e
               | Inr cols' \<Rightarrow> rewrite_lines nlabels las rest (out @ [cols'])))"

text \<open>Lines 356-402, the body of the loop for one table.\<close>

definition close_table :: "parser \<Rightarrow> string \<times> table \<Rightarrow> py_error + parser" where
  "close_table p nt =
     (let n = fst nt; tab = snd nt in
      if labels tab = [] then Inr p
      else
        (let nlabels = length (labels tab);
             p1 = p\<lparr>label_files := dict_set (label_files p) n
                        ([''bit'', ''label''] # map (\<lambda>li. [str_nat (snd li), fst li]) (labels tab))\<rparr>;
             tab1 = tab\<lparr>tconfig := (tconfig tab)\<lparr>l_nlabels := Some nlabels\<rparr>\<rparr>;
             label_attributes =
               map (\<lambda>kv. (fst kv, - 1 :: int))
                 (filter (\<lambda>kv. a_type (snd kv) = Some ''labels'') (l_attributes (tconfig tab)))
         in if label_attributes = [] then Inr (set_table p1 n tab1)
            else (case rewrite_lines nlabels label_attributes (rows tab) [] of
                    Inl e \<Rightarrow> Inl e
                  | Inr out \<Rightarrow> Inr (set_table p1 n (tab1\<lparr>rows := out\<rparr>)))))"

definition close_upload_files :: "parser \<Rightarrow> py_error + parser" where
  "close_upload_files p = foldl_r close_table p (tables p)"


subsection \<open>generate\_upload\_files\_generator\<close>

text \<open>
  The arguments of the method: \<open>default_doc\<close>, the \<open>firstClass\<close> entry of its \<open>config\<close>
  argument and the two mappings of aligned entities. The generator it drives,
  \<open>parse_generator\<close>, is abstract in the source: the input is the finite list of the
  \<open>(segment, doc)\<close> pairs it yields, \<open>None\<close> for a falsy component. The schema
  \<open>self.config\<close> always has its \<open>layer\<close> entry.
\<close>

record gen_args =
  default_doc :: "string dict"
  firstClass :: "string dict option"
  aligned_entities :: "aligned dict"
  aligned_entities_segment :: "aligned dict"

text \<open>Lines 416-422.\<close>

definition class_name :: "gen_args \<Rightarrow> string \<Rightarrow> string" where
  "class_name a k =
     (case firstClass a of
        None \<Rightarrow> k
      | Some fc \<Rightarrow> lower (case dict_get fc k of None \<Rightarrow> k | Some v \<Rightarrow> v))"

text \<open>The variables of the method that change while the loop runs.\<close>

record gen_state =
  g_parser :: parser
  has_frame_range :: bool
  current_document :: "document option"

text \<open>
  Line 439 sets \<open>token_have_dependencies\<close> to \<open>False\<close>; the only other assignment, on
  line 539, is commented out.
\<close>

definition token_have_dependencies :: bool where
  "token_have_dependencies = False"

text \<open>An update of the table object stored under a key.\<close>

definition upd_table :: "parser \<Rightarrow> string \<Rightarrow> (table \<Rightarrow> table) \<Rightarrow> parser" where
  "upd_table p k f =
     p\<lparr>tables := map (\<lambda>kv. if fst kv = k then (fst kv, f (snd kv)) else kv) (tables p)\<rparr>"

text \<open>\<open>d[k] = None\<close> on a dictionary used as an ordered set of column names.\<close>

definition insert_key :: "string list \<Rightarrow> string \<Rightarrow> string list" where
  "insert_key ks k = (if k \<in> set ks then ks else ks @ [k])"

text \<open>Lines 468-482: one attribute of a token of the first segment.\<close>

definition header_attr ::
  "aligned dict \<Rightarrow> string list \<times> string list \<Rightarrow> string \<times> attribute \<Rightarrow> string list \<times> string list" where
  "header_attr ae nc kv =
     (if \<not> attr_truthy (snd kv) then nc
      else
        (let nn = insert_key (fst nc) (fst kv)
         in if is_Dependency (snd kv) \<or> dict_has ae (lower (fst kv)) then (nn, snd nc)
            else if is_Text_or_Meta (snd kv) then (nn, insert_key (snd nc) (fst kv @ ''_id''))
            else (nn, insert_key (snd nc) (fst kv))))"

definition header_token ::
  "aligned dict \<Rightarrow> bool \<times> string list \<times> string list \<Rightarrow> token \<Rightarrow> bool \<times> string list \<times> string list" where
  "header_token ae st tok =
     (fst st \<or> t_frame_range tok \<noteq> None, foldl (header_attr ae) (snd st) (t_attributes tok))"

text \<open>Lines 462-488: freeze the columns of the token table on its first use.\<close>

definition freeze_schema :: "gen_args \<Rightarrow> string \<Rightarrow> string \<Rightarrow> gen_state \<Rightarrow> segment \<Rightarrow> gen_state" where
  "freeze_schema a tok_name seg_name g seg =
     (case dict_get (tables (g_parser g)) ''token'' of
        None \<Rightarrow> g
      | Some token_table \<Rightarrow>
          if non_null_attributes token_table = [] \<and> cursor token_table = 1 then
            (let r = foldl (header_token (aligned_entities a))
                       (has_frame_range g, [], [tok_name @ ''_id'']) (s_tokens seg);
                 c1 = insert_key (snd (snd r)) ''char_range'';
                 c2 = (if fst r then insert_key c1 ''frame_range'' else c1);
                 c3 = insert_key c2 (seg_name @ ''_id'')
             in g\<lparr>g_parser := upd_table (g_parser g) ''token''
                                 (\<lambda>t. table_write (t\<lparr>non_null_attributes := fst (snd r)\<rparr>) c3),
                   has_frame_range := fst r\<rparr>)
          else g)"

text \<open>Lines 526-535: a Text or Meta attribute goes through its lookup table.\<close>

definition lookup_attr :: "parser \<Rightarrow> string \<Rightarrow> attribute \<Rightarrow> parser \<times> string" where
  "lookup_attr p tok_name attribute =
     (let name = tok_name @ ''_'' @ attr_name attribute;
          t0 = (case dict_get (tables p) name of None \<Rightarrow> Table empty_layer | Some t \<Rightarrow> t);
          r = get_id t0 (attr_str attribute)
      in (set_table p name (snd r), str_nat (fst r)))"

text \<open>Lines 538-570: a Dependency attribute is buffered in the table of its name.\<close>

definition dep_attr ::
  "parser \<Rightarrow> segment \<Rightarrow> token \<Rightarrow> string \<Rightarrow> string \<Rightarrow> string \<Rightarrow> py_error + parser" where
  "dep_attr p seg tok name head label =
     (let t0 = (case dict_get (tables p) name of
                  None \<Rightarrow> table_write (Table empty_layer)
                            [''head'', ''dependent'', ''udep'', ''left_anchor'', ''right_anchor'']
                | Some t \<Rightarrow> t);
          t1 = (if dict_has (deps t0) (s_id seg) then t0
                else t0\<lparr>deps := dict_set (deps t0) (s_id seg) []\<rparr>);
          token_cursor = (case dict_get (tables p) ''token'' of None \<Rightarrow> 1 | Some tt \<Rightarrow> cursor tt)
      in bind_r (if head = [] then write_token_deps t1 (s_id seg) else Inr t1) (\<lambda>t2.
           (let buffered = (case dict_get (deps t2) (s_id seg) of None \<Rightarrow> [] | Some d \<Rightarrow> d);
                entry = \<lparr>head_id = head, nested_set = NestedSet (t_id tok) label token_cursor\<rparr>;
                t3 = t2\<lparr>deps := dict_set (deps t2) (s_id seg) (dict_set buffered (t_id tok) entry)\<rparr>
            in Inr (set_table p name (t3\<lparr>cursor := cursor t3 + 1\<rparr>)))))"

text \<open>Lines 498-570: one attribute name of the frozen schema, for one token.\<close>

definition token_attr ::
  "gen_args \<Rightarrow> string \<Rightarrow> segment \<Rightarrow> token \<Rightarrow> parser \<times> string list \<Rightarrow> string
     \<Rightarrow> py_error + (parser \<times> string list)" where
  "token_attr a tok_name seg tok pc attr =
     (let p = fst pc; cols = snd pc in
      case dict_get (t_attributes tok) attr of
        None \<Rightarrow> Inr (p, cols @ [[]])
      | Some attribute \<Rightarrow>
          if dict_has (aligned_entities a) (lower attr) \<and> is_Text attribute
          then bind_r (aligned_entity p attribute (aligned_entities a)) (\<lambda>p'. Inr (p', cols))
          else
            (case attribute of
               Categorical n v \<Rightarrow>
                 Inr (upd_table p ''token'' (\<lambda>t. add_categorical t attr v), cols @ [v])
             | Text n v \<Rightarrow>
                 (let r = lookup_attr p tok_name attribute in Inr (fst r, cols @ [snd r]))
             | Meta n m \<Rightarrow>
                 (let r = lookup_attr p tok_name attribute in Inr (fst r, cols @ [snd r]))
             | Dependency n v l \<Rightarrow>
                 bind_r (dep_attr p seg tok n v l) (\<lambda>p'. Inr (p', cols))))"

text \<open>
  Lines 573-576 and 640-645: close every aligned entity whose name is not among the
  given (lower-cased) attribute names.
\<close>

definition close_lapsed :: "parser \<Rightarrow> aligned dict \<Rightarrow> string list \<Rightarrow> py_error + parser" where
  "close_lapsed p ae present =
     foldl_r (\<lambda>q name. if name \<in> set present then Inr q else close_aligned_entity q name ae)
       p (dict_keys ae)"

text \<open>
  Lines 578-583: from the cursor, the length of the form and \<open>spaceAfter\<close>, the bounds of
  the token's character range and the cursor after the token.
\<close>

definition char_range_step :: "int \<Rightarrow> nat \<Rightarrow> bool \<Rightarrow> int \<times> int \<times> int" where
  "char_range_step cur len space_after =
     (let right = cur + (int len - (if space_after then 0 else 1))
      in (cur, right, right + 1))"

text \<open>
  Lines 578-603: the ranges of the token and its row, written after the attributes have
  filled \<open>cols\<close>. The state carries \<open>frame_range_segment_start\<close> beside the variables
  of the method.
\<close>

definition write_token_row ::
  "int \<Rightarrow> segment \<Rightarrow> gen_state \<times> int option \<Rightarrow> parser \<Rightarrow> string list \<Rightarrow> token
     \<Rightarrow> py_error + (gen_state \<times> int option)" where
  "write_token_row offset_frame_range seg gs p1 cols tok =
     (let g = fst gs in
      case dict_get (t_attributes tok) ''form'' of
        None \<Rightarrow> Inl KeyError
      | Some form \<Rightarrow>
          (let cr = char_range_step (char_range_cur p1) (attr_len form) (spaceAfter tok);
               cols1 = cols @ [range_str (str_int (fst cr)) (str_int (fst (snd cr)))];
               p2 = p1\<lparr>char_range_cur := snd (snd cr)\<rparr>
           in case t_frame_range tok of
                None \<Rightarrow>
                  Inr (g\<lparr>g_parser := upd_table p2 ''token''
                            (\<lambda>t. (table_write t (cols1 @ [s_id seg]))\<lparr>cursor := cursor t + 1\<rparr>)\<rparr>,
                       snd gs)
              | Some fr \<Rightarrow>
                  (let left_frame_range = fst fr + offset_frame_range;
                       right0 = snd fr + offset_frame_range;
                       right_frame_range =
                         (if right0 \<le> left_frame_range then left_frame_range + 1 else right0);
                       cols2 = cols1 @ [range_str (str_int left_frame_range)
                                          (str_int right_frame_range)];
                       cd = map_option
                              (\<lambda>d. d\<lparr>d_frame_range :=
                                       (fst (d_frame_range d), offset_frame_range + snd fr)\<rparr>)
                              (current_document g);
                       fstart = (case snd gs of
                                   None \<Rightarrow> Some (offset_frame_range + fst fr)
                                 | Some x \<Rightarrow> Some x);
                       p3 = p2\<lparr>frame_range_cur := right_frame_range\<rparr>
                   in Inr (g\<lparr>g_parser := upd_table p3 ''token''
                                (\<lambda>t. (table_write t (cols2 @ [s_id seg]))\<lparr>cursor := cursor t + 1\<rparr>),
                             has_frame_range := True,
                             current_document := cd\<rparr>,
                           fstart))))"

text \<open>Lines 496-603: one token.\<close>

definition process_token ::
  "gen_args \<Rightarrow> string \<Rightarrow> int \<Rightarrow> segment \<Rightarrow> gen_state \<times> int option \<Rightarrow> token
     \<Rightarrow> py_error + (gen_state \<times> int option)" where
  "process_token a tok_name offset_frame_range seg gs tok =
     (case dict_get (tables (g_parser (fst gs))) ''token'' of
        None \<Rightarrow> Inl KeyError
      | Some token_table \<Rightarrow>
          bind_r (foldl_r (token_attr a tok_name seg tok)
                    (g_parser (fst gs), [str_nat (cursor token_table)])
                    (non_null_attributes token_table)) (\<lambda>pc.
          bind_r (close_lapsed (fst pc) (aligned_entities a)
                    (map lower (non_null_attributes token_table))) (\<lambda>p1.
            write_token_row offset_frame_range seg gs p1 (snd pc) tok)))"

text \<open>Lines 628-638: one attribute of the segment.\<close>

definition segment_attr ::
  "gen_args \<Rightarrow> parser \<times> string list \<Rightarrow> attribute \<Rightarrow> py_error + (parser \<times> string list)" where
  "segment_attr a pc at =
     (let p = fst pc; cols = snd pc in
      if dict_has (aligned_entities_segment a) (lower (attr_name at))
      then bind_r (aligned_entity p at (aligned_entities_segment a)) (\<lambda>p'. Inr (p', cols))
      else (case dict_get (tables p) ''segment'' of
              None \<Rightarrow> Inl KeyError
            | Some segment_table \<Rightarrow>
                if attr_name at \<notin> set (col_names segment_table) then Inr (p, cols)
                else Inr (upd_table p ''segment''
                            (\<lambda>t. add_categorical t (attr_name at) (attr_str at)),
                          cols @ [attr_str at])))"

text \<open>
  Lines 605-648: the row of the segment, after its header on first use. The result
  carries \<open>cols\<close>, which the full-text-search step reuses.
\<close>

definition segment_row ::
  "gen_args \<Rightarrow> string \<Rightarrow> int \<Rightarrow> gen_state \<times> int option \<Rightarrow> segment
     \<Rightarrow> py_error + (parser \<times> string list)" where
  "segment_row a seg_name char_range_segment_start gs seg =
     (let g = fst gs; p = g_parser g in
      case dict_get (tables p) ''segment'' of
        None \<Rightarrow> Inl KeyError
      | Some segment_table \<Rightarrow>
          (let header = [seg_name @ ''_id'', ''char_range'']
                        @ (if has_frame_range g then [''frame_range''] else [])
                        @ filter (\<lambda>k. \<not> dict_has (aligned_entities_segment a) k)
                            (dict_keys (s_attributes seg));
               p1 = (if col_names segment_table = []
                     then upd_table p ''segment'' (\<lambda>t. (table_write t header)\<lparr>col_names := header\<rparr>)
                     else p);
               cols0 = [s_id seg,
                        range_str (str_int char_range_segment_start) (str_int (char_range_cur p - 1))]
           in bind_r (if has_frame_range g then
                        (case snd gs of
                           None \<Rightarrow> Inl TypeError
                         | Some frame_range_segment_start \<Rightarrow>
                             Inr (cols0 @ [range_str (str_int frame_range_segment_start)
                                             (str_int (if frame_range_cur p \<le> frame_range_segment_start
                                                       then frame_range_segment_start + 1
                                                       else frame_range_cur p))]))
                      else Inr cols0) (\<lambda>cols1.
              bind_r (foldl_r (segment_attr a) (p1, cols1) (dict_values (s_attributes seg))) (\<lambda>pc.
              bind_r (close_lapsed (fst pc) (aligned_entities_segment a)
                        (map lower (dict_keys (s_attributes seg)))) (\<lambda>p2.
                Inr (upd_table p2 ''segment''
                       (\<lambda>t. (table_write t (snd pc))\<lparr>cursor := cursor t + 1\<rparr>),
                     snd pc))))))"

text \<open>Lines 659-674: the lexemes of the token at position \<open>n\<close>.\<close>

definition fts_attr ::
  "aligned dict \<Rightarrow> token \<Rightarrow> attribute list \<Rightarrow> string \<Rightarrow> py_error + attribute list" where
  "fts_attr ae tok acc an =
     (case dict_get (t_attributes tok) an of
        None \<Rightarrow> Inl KeyError
      | Some at \<Rightarrow>
          (case at of
             Categorical n v \<Rightarrow> Inr (if dict_has ae (lower an) then acc else acc @ [at])
           | Text n v \<Rightarrow> Inr (if dict_has ae (lower an) then acc else acc @ [at])
           | Meta n m \<Rightarrow> Inr acc
           | Dependency n v l \<Rightarrow> Inr (acc @ [at, at])))"

definition escape_quotes :: "string \<Rightarrow> string" where
  "escape_quotes s = concat (map (\<lambda>c. if c = CHR 0x27 then [c, c] else [c]) s)"

definition fts_token ::
  "aligned dict \<Rightarrow> string list \<Rightarrow> string list \<Rightarrow> nat \<times> token \<Rightarrow> py_error + string list" where
  "fts_token ae nn vector nt =
     bind_r (foldl_r (fts_attr ae (snd nt)) [] nn) (\<lambda>attributes_to_fts.
       Inr (vector @ map (\<lambda>ia. [CHR 0x27] @ str_nat (fst ia) @ escape_quotes (attr_str (snd ia))
                              @ [CHR 0x27] @ '':'' @ str_nat (fst nt))
                       (zip [1..<Suc (length attributes_to_fts)] attributes_to_fts)))"

text \<open>Lines 650-679: the row of the segment in the \<open>fts_vector\<close> table.\<close>

definition fts_vector ::
  "gen_args \<Rightarrow> string \<Rightarrow> string list \<Rightarrow> parser \<Rightarrow> segment \<Rightarrow> string list \<Rightarrow> py_error + parser" where
  "fts_vector a seg_name nn p seg cols =
     (if token_have_dependencies then Inr p
      else
        (let p1 = (if dict_has (tables p) ''fts_vector'' then p
                   else set_table p ''fts_vector'' (Table empty_layer))
         in bind_r (foldl_r (fts_token (aligned_entities a) nn) []
                      (zip [1..<Suc (length (s_tokens seg))] (s_tokens seg))) (\<lambda>vector.
              Inr (upd_table p1 ''fts_vector''
                     (\<lambda>t. (table_write
                              (if cursor t = 1 then table_write t [seg_name @ ''_id'', ''vector''] else t)
                              (take 1 cols @ [join '' '' vector]))
                           \<lparr>cursor := cursor t + 1\<rparr>)))))"

text \<open>Lines 446-456: a new document closes and writes the one that was current.\<close>

definition switch_document ::
  "string \<Rightarrow> int \<Rightarrow> gen_state \<Rightarrow> document option \<Rightarrow> py_error + gen_state" where
  "switch_document doc_name offset_frame_range g doc =
     (case doc of
        None \<Rightarrow> Inr g
      | Some d \<Rightarrow>
          if (case current_document g of None \<Rightarrow> False | Some cd \<Rightarrow> d_oid cd = d_oid d) then Inr g
          else
            bind_r (case current_document g of
                      None \<Rightarrow> Inr (g_parser g)
                    | Some cd \<Rightarrow>
                        (case dict_get (tables (g_parser g)) ''document'' of
                           None \<Rightarrow> Inl KeyError
                         | Some dt \<Rightarrow>
                             bind_r (upload_new_doc (g_parser g) cd dt doc_name) (\<lambda>pt.
                               Inr (set_table (fst pt) ''document'' (snd pt))))) (\<lambda>p1.
              Inr (g\<lparr>g_parser := p1,
                     current_document :=
                       Some (d\<lparr>d_frame_range := (offset_frame_range, snd (d_frame_range d)),
                               d_char_range_start := char_range_cur (g_parser g)\<rparr>)\<rparr>)))"

text \<open>Lines 441-679: the body of the loop for one yielded pair.\<close>

definition process_pair ::
  "gen_args \<Rightarrow> int \<Rightarrow> gen_state \<Rightarrow> segment option \<times> document option \<Rightarrow> py_error + gen_state" where
  "process_pair a offset_frame_range g sd =
     (let char_range_segment_start = char_range_cur (g_parser g) in
      bind_r (switch_document (class_name a ''document'') offset_frame_range g (snd sd)) (\<lambda>g1.
        case fst sd of
          None \<Rightarrow> Inr g1
        | Some seg \<Rightarrow>
            (let g2 = freeze_schema a (class_name a ''token'') (class_name a ''segment'') g1 seg;
                 nn = (case dict_get (tables (g_parser g2)) ''token'' of
                         None \<Rightarrow> [] | Some tt \<Rightarrow> non_null_attributes tt)
             in bind_r (foldl_r (process_token a (class_name a ''token'') offset_frame_range seg)
                          (g2, None) (s_tokens seg)) (\<lambda>gs.
                bind_r (segment_row a (class_name a ''segment'') char_range_segment_start gs seg) (\<lambda>pc.
                bind_r (fts_vector a (class_name a ''segment'') nn (fst pc) seg (snd pc)) (\<lambda>p3.
                  Inr ((fst gs)\<lparr>g_parser := p3\<rparr>)))))))"

text \<open>Lines 683-686: flush every table that still buffers dependencies.\<close>

definition flush_deps :: "parser \<Rightarrow> py_error + parser" where
  "flush_deps p =
     foldl_r (\<lambda>q k. case dict_get (tables q) k of
                       None \<Rightarrow> Inr q
                     | Some tab \<Rightarrow>
                         if deps tab = [] then Inr q
                         else bind_r (write_token_deps tab []) (\<lambda>tab'. Inr (set_table q k tab')))
       p (dict_keys (tables p))"

text \<open>
  Lines 706-721: the observed categorical values go back into the schema. The source
  iterates a Python set, whose order is not fixed; the model appends the new values in
  the order they were first seen.
\<close>

definition propagate_attr :: "table \<Rightarrow> string \<times> attr_cfg \<Rightarrow> string \<times> attr_cfg" where
  "propagate_attr t kv =
     (case dict_get (categorical_values t) (fst kv) of
        None \<Rightarrow> kv
      | Some cv \<Rightarrow>
          if cv \<noteq> [] \<and> a_type (snd kv) = Some ''categorical'' \<and> \<not> a_isGlobal (snd kv)
          then (fst kv, (snd kv)\<lparr>a_values :=
                  Some (foldl insert_key (case a_values (snd kv) of None \<Rightarrow> [] | Some vs \<Rightarrow> vs) cv)\<rparr>)
          else kv)"

definition propagate_categorical :: "parser \<Rightarrow> py_error + parser" where
  "propagate_categorical p =
     (if c_layer (config p) = [] then Inr p
      else (case c_firstClass (config p) of
              None \<Rightarrow> Inl KeyError
            | Some fc \<Rightarrow>
                Inr (p\<lparr>config := (config p)\<lparr>c_layer :=
                       map (\<lambda>llp.
                              case dict_get (tables p)
                                     (lower (case dict_get fc (fst llp) of None \<Rightarrow> fst llp | Some v \<Rightarrow> v)) of
                                None \<Rightarrow> llp
                              | Some t \<Rightarrow>
                                  (fst llp, (snd llp)\<lparr>l_attributes :=
                                     map (propagate_attr t) (l_attributes (snd llp))\<rparr>))
                         (c_layer (config p))\<rparr>\<rparr>)))"

text \<open>Lines 694-704: the document written last; without any, one that spans the input.\<close>

definition last_document :: "gen_args \<Rightarrow> int \<Rightarrow> gen_state \<Rightarrow> document" where
  "last_document a char_range_start g =
     (case current_document g of
        Some d \<Rightarrow> d
      | None \<Rightarrow> Document\<lparr>d_meta := (if default_doc a = [] then None else Some (default_doc a)),
                         d_char_range_start := char_range_start\<rparr>)"

text \<open>Lines 424-434: \<open>self._tables = self._tables or {...}\<close>.\<close>

definition init_tables :: "parser \<Rightarrow> gen_args \<Rightarrow> parser" where
  "init_tables p a =
     (let cfg = get_ci (c_layer (config p)) (class_name a ''document'')
      in if tables p = []
         then p\<lparr>tables := [(''document'', Table cfg), (''segment'', Table cfg), (''token'', Table cfg)]\<rparr>
         else p)"

text \<open>Lines 404-721.\<close>

definition generate_upload_files_generator ::
  "parser \<Rightarrow> (segment option \<times> document option) list \<Rightarrow> gen_args \<Rightarrow> py_error + parser" where
  "generate_upload_files_generator p reader a =
     (let p0 = init_tables p a;
          char_range_start = char_range_cur p0;
          offset_frame_range = frame_range_cur p0
      in if \<not> dict_has (tables p0) ''token'' then Inl KeyError
         else
           bind_r (foldl_r (process_pair a offset_frame_range)
                     \<lparr>g_parser = p0, has_frame_range = False, current_document = None\<rparr> reader) (\<lambda>g.
           bind_r (if token_have_dependencies then flush_deps (g_parser g) else Inr (g_parser g)) (\<lambda>p1.
           bind_r (foldl_r (\<lambda>q ename. close_aligned_entity q ename (aligned_entities a))
                     p1 (dict_keys (aligned_entities a))) (\<lambda>p2.
           bind_r (foldl_r (\<lambda>q ename. close_aligned_entity q ename (aligned_entities_segment a))
                     p2 (dict_keys (aligned_entities_segment a))) (\<lambda>p3.
             case dict_get (tables p3) ''document'' of
               None \<Rightarrow> Inl KeyError
             | Some dt \<Rightarrow>
                 bind_r (upload_new_doc p3 (last_document a char_range_start g) dt
                           (class_name a ''document'')) (\<lambda>pt.
                   propagate_categorical (set_table (fst pt) ''document'' (snd pt))))))))"


subsection \<open>Observing a run\<close>

text \<open>
  The file of the table stored under a key: its rows, none for a table never created.
  \<open>rows_of\<close> reads it off the outcome of a run, keeping the exception of a run that
  raised.
\<close>

definition table_rows :: "parser \<Rightarrow> string \<Rightarrow> string list list" where
  "table_rows p k = (case dict_get (tables p) k of None \<Rightarrow> [] | Some t \<Rightarrow> rows t)"

definition rows_of :: "py_error + parser \<Rightarrow> string \<Rightarrow> py_error + string list list" where
  "rows_of r k = (case r of Inl e \<Rightarrow> Inl e | Inr p \<Rightarrow> Inr (table_rows p k))"

text \<open>The buffered dependency entries of a table after a run, as (segment, token ids).\<close>

definition pending_deps :: "py_error + parser \<Rightarrow> string \<Rightarrow> py_error + (string \<times> string list) list" where
  "pending_deps r k =
     (case r of
        Inl e \<Rightarrow> Inl e
      | Inr p \<Rightarrow> (case dict_get (tables p) k of
                   None \<Rightarrow> Inr []
                 | Some t \<Rightarrow> Inr (map (\<lambda>st. (fst st, dict_keys (snd st))) (deps t))))"

text \<open>The state of the method when its loop starts (lines 424-440).\<close>

definition loop_start :: "parser \<Rightarrow> gen_args \<Rightarrow> gen_state" where
  "loop_start p a = \<lparr>g_parser = init_tables p a, has_frame_range = False, current_document = None\<rparr>"

text \<open>The id of the entity open in the table of an aligned entity type (\<open>ce.get("id", "")\<close>).\<close>

definition current_id :: "parser \<Rightarrow> string \<Rightarrow> string" where
  "current_id p k =
     (case dict_get (tables p) k of
        None \<Rightarrow> []
      | Some t \<Rightarrow> (case e_id (current_entity t) of None \<Rightarrow> [] | Some i \<Rightarrow> i))"

subsection \<open>Concrete inputs\<close>

text \<open>A schema with no layer, and a call with no aligned entity and no default document.\<close>

definition plain_schema :: config where
  "plain_schema = \<lparr>c_layer = [], c_firstClass = None, c_mediaSlots = []\<rparr>"

definition plain_args :: gen_args where
  "plain_args = \<lparr>default_doc = [], firstClass = None, aligned_entities = [],
     aligned_entities_segment = []\<rparr>"

definition word :: "string \<Rightarrow> string \<Rightarrow> bool \<Rightarrow> token" where
  "word i f sp = \<lparr>t_id = i, spaceAfter = sp, t_frame_range = None,
     t_attributes = [(''form'', Text ''form'' f)]\<rparr>"

text \<open>The segment "Hello World": \<open>spaceAfter\<close> true, then false on the last token.\<close>

definition hello_world :: segment where
  "hello_world = \<lparr>s_id = ''s1'', s_attributes = [],
     s_tokens = [word ''1'' ''Hello'' True, word ''2'' ''World'' False]\<rparr>"

text \<open>The segment "(a": a one-character token with no space after it, then a word.\<close>

definition paren_a :: segment where
  "paren_a = \<lparr>s_id = ''s1'', s_attributes = [],
     s_tokens = [word ''1'' ''('' False, word ''2'' ''a'' True]\<rparr>"

text \<open>"Dogs bark": \<open>Dogs\<close> depends on \<open>bark\<close>, the root.\<close>

definition dep_word :: "string \<Rightarrow> string \<Rightarrow> string \<Rightarrow> string \<Rightarrow> token" where
  "dep_word i f h l = \<lparr>t_id = i, spaceAfter = True, t_frame_range = None,
     t_attributes = [(''form'', Text ''form'' f), (''head'', Dependency ''head'' h l)]\<rparr>"

definition dogs_bark :: segment where
  "dogs_bark = \<lparr>s_id = ''s1'', s_attributes = [],
     s_tokens = [dep_word ''1'' ''Dogs'' ''2'' ''nsubj'', dep_word ''2'' ''bark'' [] ''root'']\<rparr>"

text \<open>Two tokens, the second one alone carrying a frame range.\<close>

definition half_timed :: segment where
  "half_timed = \<lparr>s_id = ''s1'', s_attributes = [],
     s_tokens = [word ''1'' ''a'' True, (word ''2'' ''b'' True)\<lparr>t_frame_range := Some (0, 5)\<rparr>]\<rparr>"

text \<open>
  An aligned entity type \<open>ne\<close> with one column; its reference file has the entities
  \<open>E1\<close> and \<open>E2\<close>. In \<open>ne_schema\<close> the column is categorical, in \<open>tag_schema\<close> it holds
  labels.
\<close>

definition one_column_schema :: "string \<Rightarrow> string \<Rightarrow> config" where
  "one_column_schema col ty =
     \<lparr>c_layer = [(''ne'', \<lparr>l_attributes = [(col, \<lparr>a_type = Some ty, a_isGlobal = False,
                                                     a_values = None\<rparr>)],
                            l_nlabels = None\<rparr>)],
      c_firstClass = Some [], c_mediaSlots = []\<rparr>"

definition one_column_file :: "string \<Rightarrow> string \<Rightarrow> string \<Rightarrow> string list" where
  "one_column_file col v1 v2 =
     [''ne_id'' @ [CHR 0x09] @ col @ [CHR 0x0A],
      ''E1'' @ [CHR 0x09] @ v1 @ [CHR 0x0A],
      ''E2'' @ [CHR 0x09] @ v2 @ [CHR 0x0A]]"

definition ne_args :: "string list \<Rightarrow> gen_args" where
  "ne_args file = \<lparr>default_doc = [], firstClass = None,
     aligned_entities = [(''ne'', \<lparr>fn = file, time_anchored = False\<rparr>)],
     aligned_entities_segment = []\<rparr>"

definition ne_word :: "string \<Rightarrow> string \<Rightarrow> token" where
  "ne_word i k = \<lparr>t_id = i, spaceAfter = True, t_frame_range = None,
     t_attributes = [(''form'', Text ''form'' ''a''), (''ne'', Text ''ne'' k)]\<rparr>"

definition ne_schema :: config where
  "ne_schema = one_column_schema ''kind'' ''categorical''"

definition ne_file :: "string list" where
  "ne_file = one_column_file ''kind'' ''PER'' ''LOC''"

text \<open>Tokens 1 to 3 reference \<open>E1\<close>, token 4 has no \<open>ne\<close> attribute, token 5 references \<open>E2\<close>.\<close>

definition five_tokens :: segment where
  "five_tokens = \<lparr>s_id = ''s1'', s_attributes = [],
     s_tokens = [ne_word ''1'' ''E1'', ne_word ''2'' ''E1'', ne_word ''3'' ''E1'',
                 word ''4'' ''a'' True, ne_word ''5'' ''E2'']\<rparr>"

definition tag_schema :: config where
  "tag_schema = one_column_schema ''tags'' ''labels''"

definition tag_file :: "string list" where
  "tag_file = one_column_file ''tags'' ''a'' ''b''"

text \<open>One token in entity \<open>E1\<close>, labelled \<open>a\<close>, and one in \<open>E2\<close>, labelled \<open>b\<close>.\<close>

definition two_entities :: segment where
  "two_entities = \<lparr>s_id = ''s1'', s_attributes = [],
     s_tokens = [ne_word ''1'' ''E1'', ne_word ''2'' ''E2'']\<rparr>"

text \<open>The label vocabulary of a table after a run.\<close>

definition labels_of :: "py_error + parser \<Rightarrow> string \<Rightarrow> py_error + (string \<times> nat) list" where
  "labels_of r k =
     (case r of
        Inl e \<Rightarrow> Inl e
      | Inr p \<Rightarrow> (case dict_get (tables p) k of None \<Rightarrow> Inr [] | Some t \<Rightarrow> Inr (labels t)))"

text \<open>A lexeme of the full-text-search vector: \<open>'key':position\<close>.\<close>

definition lexeme :: "string \<Rightarrow> string \<Rightarrow> string" where
  "lexeme k n = [CHR 0x27] @ k @ [CHR 0x27] @ '':'' @ n"

text \<open>A dependency table that buffers one segment whose two tokens both have a head.\<close>

definition orphan_table :: table where
  "orphan_table = (Table empty_layer)\<lparr>deps :=
     [(''s0'', [(''1'', \<lparr>head_id = ''2'', nested_set = NestedSet ''1'' ''det'' 1\<rparr>),
               (''2'', \<lparr>head_id = ''9'', nested_set = NestedSet ''2'' ''obj'' 2\<rparr>)])]\<rparr>"

text \<open>The first field, stripped, of every line of a reference file.\<close>

definition first_column :: "string list \<Rightarrow> string list" where
  "first_column lines =
     map (\<lambda>l. strip (case split_on (CHR 0x09) l of [] \<Rightarrow> [] | c # _ \<Rightarrow> c)) lines"



text \<open>The table stored under the key \<open>document\<close>.\<close>

definition doc_table :: "parser \<Rightarrow> table option" where
  "doc_table p = dict_get (tables p) ''document''"

text \<open>
  A dependency table that buffers two segments: \<open>s0\<close>, whose two tokens both have a
  head, and \<open>s1\<close>, a complete tree of two tokens.
\<close>

definition mixed_table :: table where
  "mixed_table = (Table empty_layer)\<lparr>deps :=
     [(''s0'', [(''1'', \<lparr>head_id = ''2'', nested_set = NestedSet ''1'' ''det'' 1\<rparr>),
               (''2'', \<lparr>head_id = ''9'', nested_set = NestedSet ''2'' ''obj'' 2\<rparr>)]),
      (''s1'', [(''3'', \<lparr>head_id = ''4'', nested_set = NestedSet ''3'' ''nsubj'' 3\<rparr>),
               (''4'', \<lparr>head_id = [], nested_set = NestedSet ''4'' ''root'' 4\<rparr>)])]\<rparr>"

text \<open>The table with one segment taken out of the dependency buffer.\<close>

definition without_segment :: "table \<Rightarrow> string \<Rightarrow> table" where
  "without_segment t sid = t\<lparr>deps := dict_del (deps t) sid\<rparr>"

text \<open>What a call of \<open>write_token_deps\<close> shows to its caller: the exception, or the rows
  of the table and the anchor it ends with.\<close>

definition written :: "py_error + table \<Rightarrow> py_error + (string list list \<times> int)" where
  "written r = (case r of Inl e \<Rightarrow> Inl e | Inr t \<Rightarrow> Inr (rows t, anchor_right t))"

text \<open>
  The effect of the loop body on a table, as data: the exception, or the rows appended,
  the new anchor, the nested sets stored back for the segment and whether the segment
  joins \<open>empty_segments\<close>.
\<close>

definition segment_effect ::
  "table \<Rightarrow> string \<Rightarrow> py_error + (string list list \<times> int \<times> dep_entry dict \<times> bool) \<Rightarrow> py_error + (table \<times> bool)" where
  "segment_effect t s F =
     (case F of
        Inl e \<Rightarrow> Inl e
      | Inr r \<Rightarrow> Inr (t\<lparr>rows := rows t @ fst r, anchor_right := fst (snd r),
                         deps := dict_set (deps t) s (fst (snd (snd r)))\<rparr>,
                      snd (snd (snd r))))"

text \<open>The rows, the anchor and the segments to evict after the loop over the buffer.\<close>

definition progress :: "py_error + (table \<times> string list) \<Rightarrow> py_error + (string list list \<times> int \<times> string list)" where
  "progress r = (case r of Inl e \<Rightarrow> Inl e | Inr ta \<Rightarrow> Inr (rows (fst ta), anchor_right (fst ta), snd ta))"






text \<open>A segment of one token that references the entity \<open>dummy\<close>, absent from \<open>ne_file\<close>.\<close>

definition dummy_ref :: segment where
  "dummy_ref = \<lparr>s_id = ''s1'', s_attributes = [], s_tokens = [ne_word ''1'' ''dummy'']\<rparr>"

section \<open>Properties\<close>

text \<open>
  C1. Reading the scenario "Hello World" (\<open>spaceAfter\<close> true, then false on the last
  token) from cursor 1, the run writes the token ranges \<open>[1,6)\<close> and \<open>[7,11)\<close> and the
  segment range \<open>[1,11)\<close>: the unit subtracted for the missing space is taken off the
  range's upper end, so "World" is given four positions.
\<close>

theorem hello_world_ranges:
  "rows_of (generate_upload_files_generator (Parser plain_schema) [(Some hello_world, None)] plain_args)
      ''token''
     = Inr [[''token_id'', ''form_id'', ''char_range'', ''segment_id''],
            [''1'', ''1'', ''[1,6)'', ''s1''],
            [''2'', ''2'', ''[7,11)'', ''s1'']]
   \<and> rows_of (generate_upload_files_generator (Parser plain_schema) [(Some hello_world, None)] plain_args)
      ''segment''
     = Inr [[''segment_id'', ''char_range''], [''s1'', ''[1,11)'']]"
  by code_simp

text \<open>
  C5. A token of one character with no space after it is written with the empty range
  \<open>[1,1)\<close>: the token's character range is not widened when it degenerates, unlike the
  frame range of a token and the ranges of an aligned entity.
\<close>

theorem paren_token_empty_range:
  "char_range_step 1 (length ''('') False = (1, 1, 2)
   \<and> rows_of (generate_upload_files_generator (Parser plain_schema) [(Some paren_a, None)] plain_args)
      ''token''
     = Inr [[''token_id'', ''form_id'', ''char_range'', ''segment_id''],
            [''1'', ''1'', ''[1,1)'', ''s1''],
            [''2'', ''2'', ''[2,3)'', ''s1'']]"
  by code_simp

text \<open>
  C2. A run over the single segment "Dogs bark" ends with the dependency table holding
  its header only, the two tokens of the tree still buffered: the flush at the end of
  the stream is guarded by a flag that is never set. Calling the flush on the outcome
  writes the two rows and empties the buffer.
\<close>

theorem pending_tree_not_flushed:
  "rows_of (generate_upload_files_generator (Parser plain_schema) [(Some dogs_bark, None)] plain_args)
      ''head''
     = Inr [[''head'', ''dependent'', ''udep'', ''left_anchor'', ''right_anchor'']]
   \<and> pending_deps (generate_upload_files_generator (Parser plain_schema) [(Some dogs_bark, None)] plain_args)
      ''head''
     = Inr [(''s1'', [''1'', ''2''])]
   \<and> rows_of (bind_r (generate_upload_files_generator (Parser plain_schema) [(Some dogs_bark, None)] plain_args)
                 flush_deps) ''head''
     = Inr [[''head'', ''dependent'', ''udep'', ''left_anchor'', ''right_anchor''],
            [[], ''2'', ''root'', ''1'', ''4''],
            [''2'', ''1'', ''nsubj'', ''2'', ''3'']]
   \<and> pending_deps (bind_r (generate_upload_files_generator (Parser plain_schema) [(Some dogs_bark, None)] plain_args)
                      flush_deps) ''head''
     = Inr []"
  by code_simp

text \<open>
  C8. In a first segment whose second token alone carries a frame range, the header of
  the token table has five columns, the row of the first token four and the row of the
  second five.
\<close>

theorem half_timed_rows_differ:
  "rows_of (generate_upload_files_generator (Parser plain_schema) [(Some half_timed, None)] plain_args)
      ''token''
     = Inr [[''token_id'', ''form_id'', ''char_range'', ''frame_range'', ''segment_id''],
            [''1'', ''1'', ''[1,2)'', ''s1''],
            [''2'', ''2'', ''[3,4)'', ''[0,5)'', ''s1'']]"
  by code_simp

text \<open>
  C6. Tokens 1 to 3 reference \<open>E1\<close>, token 4 has no attribute of the entity type and
  token 5 references \<open>E2\<close>. After the five tokens the entity table holds one row, for
  \<open>E1\<close>, with the range \<open>[1,8)\<close>, which covers token 4 (\<open>[7,8)\<close>); the run then raises
  \<open>KeyError\<close> in the full-text-search step, which reads the absent attribute of token 4,
  so the row of \<open>E2\<close> is never written.
\<close>

theorem lapsed_entity_not_closed:
  "(case foldl_r (process_token (ne_args ne_file) ''token'' 0 five_tokens)
            (freeze_schema (ne_args ne_file) ''token'' ''segment''
               (loop_start (Parser ne_schema) (ne_args ne_file)) five_tokens, None)
            (s_tokens five_tokens) of
      Inl e \<Rightarrow> Inl e
    | Inr gs \<Rightarrow> Inr (table_rows (g_parser (fst gs)) ''ne'', table_rows (g_parser (fst gs)) ''token''))
     = Inr ([[''ne_id'', ''kind'', ''char_range''], [''1'', ''PER'', ''[1,8)'']],
            [[''token_id'', ''form_id'', ''char_range'', ''segment_id''],
             [''1'', ''1'', ''[1,2)'', ''s1''],
             [''2'', ''1'', ''[3,4)'', ''s1''],
             [''3'', ''1'', ''[5,6)'', ''s1''],
             [''4'', ''1'', [], ''[7,8)'', ''s1''],
             [''5'', ''1'', ''[9,10)'', ''s1'']])
   \<and> rows_of (generate_upload_files_generator (Parser ne_schema) [(Some five_tokens, None)]
                 (ne_args ne_file)) ''ne''
     = Inl KeyError"
  by code_simp

text \<open>
  C4. Entity \<open>E1\<close> carries the label \<open>a\<close> and entity \<open>E2\<close> the label \<open>b\<close>. The
  vocabulary assigns \<open>a\<close> the index 0 and \<open>b\<close> the index 1, and after finalization
  both rows hold the bitstring \<open>01\<close>: the labels of index 0 and 1 set the same bit.
\<close>

theorem label_bits_collide:
  "rows_of (bind_r (generate_upload_files_generator (Parser tag_schema) [(Some two_entities, None)]
                      (ne_args tag_file)) close_upload_files) ''ne''
     = Inr [[''ne_id'', ''tags'', ''char_range''],
            [''1'', ''01'', ''[1,2)''],
            [''2'', ''01'', ''[3,4)'']]
   \<and> labels_of (bind_r (generate_upload_files_generator (Parser tag_schema) [(Some two_entities, None)]
                      (ne_args tag_file)) close_upload_files) ''ne''
     = Inr [(''a'', 0), (''b'', 1)]
   \<and> fst (pack_labels [] ''a'') = [(''a'', 0)]
   \<and> snd (pack_labels [] ''a'') = ''1''
   \<and> snd (pack_labels [(''a'', 0)] ''b'') = ''1''"
  by code_simp

text \<open>
  C3, as stated, fails: both tokens of "Dogs bark" carry a Dependency attribute, and
  the run writes a row for the segment in the \<open>fts_vector\<close> table.
\<close>

theorem dependency_segment_has_fts_row:
  "map (\<lambda>t. map (\<lambda>kv. is_Dependency (snd kv)) (t_attributes t)) (s_tokens dogs_bark)
     = [[False, True], [False, True]]
   \<and> rows_of (generate_upload_files_generator (Parser plain_schema) [(Some dogs_bark, None)] plain_args)
      ''fts_vector''
     = Inr [[''segment_id'', ''vector''],
            [''s1'', join '' '' [lexeme ''1Dogs'' ''1'', lexeme ''22'' ''1'', lexeme ''32'' ''1'',
                                  lexeme ''1bark'' ''2'', lexeme ''2'' ''2'', lexeme ''3'' ''2'']]]"
  by code_simp


text \<open>
  C10, as stated, fails: the token references the key \<open>dummy\<close>, not empty, not the
  placeholder and in no line of the reference file. The entity is opened with its id
  only, and the next close, \<open>close_aligned_entity\<close> at the end of the run, raises no
  \<open>KeyError\<close>: its key is \<open>dummy\<close> too, so it takes the entity for the one still being
  processed and drops it. The run returns and the table holds its header only.
\<close>

theorem dummy_key_closes_silently:
  "rows_of (generate_upload_files_generator (Parser ne_schema) [(Some dummy_ref, None)] (ne_args ne_file)) ''ne''
     = Inr [[''ne_id'', ''kind'', ''char_range'']]
   \<and> (case aligned_entity (Parser ne_schema) (Text ''ne'' ''dummy'') (aligned_entities (ne_args ne_file)) of
         Inl e \<Rightarrow> False
       | Inr p' \<Rightarrow> current_id p' ''ne'' = ''dummy''
                   \<and> rows_of (close_aligned_entity p' ''ne'' (aligned_entities (ne_args ne_file))) ''ne''
                       = Inr [[''ne_id'', ''kind'', ''char_range'']])"
  by code_simp

subsection \<open>Dictionaries and the linking of nested sets\<close>

lemma dict_get_dict_set: "dict_get (dict_set d k v) k' = (if k' = k then Some v else dict_get d k')"
  by (induction d) (auto simp: dict_get_def)

lemma dict_keys_dict_set: "dict_has d k \<Longrightarrow> dict_keys (dict_set d k v) = dict_keys d"
  by (induction d) (auto simp: dict_has_def dict_keys_def)

lemma dict_keys_upd_ns: "dict_keys (upd_ns toks i f) = dict_keys toks"
  by (induction toks) (auto simp: upd_ns_def dict_keys_def)

lemma dict_keys_ns_add: "dict_keys (ns_add toks a b) = dict_keys toks"
  by (simp add: ns_add_def dict_keys_upd_ns)

lemma link_tokens_rootless:
  "\<forall>kv\<in>set items. head_id (snd kv) \<noteq> [] \<Longrightarrow> snd (link_tokens toks items root) = root"
  by (induction items arbitrary: toks) (auto simp: Let_def)

lemma link_tokens_keys: "dict_keys (fst (link_tokens toks items root)) = dict_keys toks"
  by (induction toks items root rule: link_tokens.induct) (auto simp: Let_def dict_keys_ns_add)

lemma deps_segment_rootless:
  assumes "\<forall>kv\<in>set tokens. head_id (snd kv) \<noteq> []"
  shows "deps_segment t segment_id tokens
           = Inr (t\<lparr>deps := dict_set (deps t) segment_id (fst (link_tokens tokens tokens None))\<rparr>, False)"
  using link_tokens_rootless [OF assms, of tokens None]
  by (simp add: deps_segment_def Let_def)

lemma deps_segments_rootless:
  assumes "\<forall>st\<in>set items. fst st \<noteq> w \<longrightarrow> (\<forall>kv\<in>set (snd st). head_id (snd kv) \<noteq> [])"
      and "distinct (map fst items)"
      and "\<forall>st\<in>set items. dict_get (deps t) (fst st) = Some (snd st)"
  shows "\<exists>t'. deps_segments t w items acc = Inr (t', acc)
            \<and> rows t' = rows t \<and> anchor_right t' = anchor_right t
            \<and> dict_keys (deps t') = dict_keys (deps t)
            \<and> (\<forall>s. map_option dict_keys (dict_get (deps t') s) = map_option dict_keys (dict_get (deps t) s))"
  using assms
proof (induction items arbitrary: t)
  case Nil
  then show ?case by simp
next
  case (Cons kv rest)
  show ?case
  proof (cases "fst kv = w")
    case True
    have "\<exists>t'. deps_segments t w rest acc = Inr (t', acc)
            \<and> rows t' = rows t \<and> anchor_right t' = anchor_right t
            \<and> dict_keys (deps t') = dict_keys (deps t)
            \<and> (\<forall>s. map_option dict_keys (dict_get (deps t') s) = map_option dict_keys (dict_get (deps t) s))"
      using Cons.prems by (intro Cons.IH) auto
    with True show ?thesis by simp
  next
    case False
    define linked where "linked = fst (link_tokens (snd kv) (snd kv) None)"
    define t1 where "t1 = t\<lparr>deps := dict_set (deps t) (fst kv) linked\<rparr>"
    have rootless: "\<forall>e\<in>set (snd kv). head_id (snd e) \<noteq> []"
      using Cons.prems(1) False by auto
    have step: "deps_segment t (fst kv) (snd kv) = Inr (t1, False)"
      using deps_segment_rootless [OF rootless] by (simp add: t1_def linked_def)
    have here: "dict_get (deps t) (fst kv) = Some (snd kv)"
      using Cons.prems(3) by simp
    have rest_get: "\<forall>st\<in>set rest. dict_get (deps t1) (fst st) = Some (snd st)"
    proof
      fix st assume st: "st \<in> set rest"
      then have "fst st \<in> fst ` set rest" by (rule imageI)
      moreover have "fst kv \<notin> fst ` set rest" using Cons.prems(2) by simp
      ultimately have "fst st \<noteq> fst kv" by metis
      moreover have "dict_get (deps t) (fst st) = Some (snd st)" using Cons.prems(3) st by simp
      ultimately show "dict_get (deps t1) (fst st) = Some (snd st)"
        by (simp add: t1_def dict_get_dict_set)
    qed
    have "\<exists>t'. deps_segments t1 w rest acc = Inr (t', acc)
            \<and> rows t' = rows t1 \<and> anchor_right t' = anchor_right t1
            \<and> dict_keys (deps t') = dict_keys (deps t1)
            \<and> (\<forall>s. map_option dict_keys (dict_get (deps t') s) = map_option dict_keys (dict_get (deps t1) s))"
      using Cons.prems(1,2) rest_get by (intro Cons.IH) auto
    then obtain t' where t': "deps_segments t1 w rest acc = Inr (t', acc)"
        "rows t' = rows t1" "anchor_right t' = anchor_right t1"
        "dict_keys (deps t') = dict_keys (deps t1)"
        "\<forall>s. map_option dict_keys (dict_get (deps t') s) = map_option dict_keys (dict_get (deps t1) s)"
      by blast
    have keys1: "dict_keys (deps t1) = dict_keys (deps t)"
      using here by (simp add: t1_def dict_keys_dict_set dict_has_def dict_get_def)
    have toks1: "map_option dict_keys (dict_get (deps t1) s) = map_option dict_keys (dict_get (deps t) s)" for s
      using here by (simp add: t1_def dict_get_dict_set linked_def link_tokens_keys)
    have "deps_segments t w (kv # rest) acc = Inr (t', acc)"
      using False step t'(1) by simp
    moreover have "rows t' = rows t" "anchor_right t' = anchor_right t"
      using t'(2,3) by (simp_all add: t1_def)
    ultimately show ?thesis using t'(4,5) keys1 toks1 by auto
  qed
qed

lemma dict_get_mem: "distinct (map fst d) \<Longrightarrow> kv \<in> set d \<Longrightarrow> dict_get d (fst kv) = Some (snd kv)"
  by (simp add: dict_get_def)

text \<open>
  When no buffered segment other than the one being worked on has an entry with an empty
  head, \<open>write_token_deps\<close> returns normally (the failed assertion is caught), writes no
  row, leaves the anchor where it was, evicts no segment and keeps the token ids of every
  buffer.
\<close>

lemma rootless_buffer_returns:
  assumes "distinct (dict_keys (deps t))"
      and "\<forall>st\<in>set (deps t). fst st \<noteq> working_on \<longrightarrow> (\<forall>kv\<in>set (snd st). head_id (snd kv) \<noteq> [])"
  shows "\<exists>t'. write_token_deps t working_on = Inr t'
            \<and> rows t' = rows t \<and> anchor_right t' = anchor_right t
            \<and> dict_keys (deps t') = dict_keys (deps t)
            \<and> (\<forall>s. map_option dict_keys (dict_get (deps t') s) = map_option dict_keys (dict_get (deps t) s))"
proof -
  have d: "distinct (map fst (deps t))" using assms(1) by (simp add: dict_keys_def)
  have g: "\<forall>st\<in>set (deps t). dict_get (deps t) (fst st) = Some (snd st)"
    using d by (simp add: dict_get_mem)
  obtain t' where t': "deps_segments t working_on (deps t) [] = Inr (t', [])"
        "rows t' = rows t" "anchor_right t' = anchor_right t"
        "dict_keys (deps t') = dict_keys (deps t)"
        "\<forall>s. map_option dict_keys (dict_get (deps t') s) = map_option dict_keys (dict_get (deps t) s)"
    using deps_segments_rootless [OF assms(2) d g, of "[]"] by blast
  have "write_token_deps t working_on = Inr t'"
    using t'(1) by (simp add: write_token_deps_def)
  then show ?thesis using t'(2-5) by blast
qed

lemma rootless_buffer_returns_orphan:
  "\<exists>t'. write_token_deps orphan_table ''s1'' = Inr t'
        \<and> rows t' = [] \<and> anchor_right t' = 0
        \<and> dict_keys (deps t') = [''s0'']
        \<and> map_option dict_keys (dict_get (deps t') ''s0'') = Some [''1'', ''2'']"
proof -
  have d: "distinct (dict_keys (deps orphan_table))"
    by (simp add: orphan_table_def dict_keys_def)
  have r: "\<forall>st\<in>set (deps orphan_table). fst st \<noteq> ''s1'' \<longrightarrow> (\<forall>kv\<in>set (snd st). head_id (snd kv) \<noteq> [])"
    by (simp add: orphan_table_def)
  obtain t' where t': "write_token_deps orphan_table ''s1'' = Inr t'"
      "rows t' = rows orphan_table" "anchor_right t' = anchor_right orphan_table"
      "dict_keys (deps t') = dict_keys (deps orphan_table)"
      "\<forall>s. map_option dict_keys (dict_get (deps t') s) = map_option dict_keys (dict_get (deps orphan_table) s)"
    using rootless_buffer_returns [OF d r] by blast
  have "map_option dict_keys (dict_get (deps t') ''s0'') = map_option dict_keys (dict_get (deps orphan_table) ''s0'')"
    using t'(5) by blast
  then show ?thesis
    using t'(1-4) by (simp add: orphan_table_def Table_def dict_keys_def dict_get_def)
qed

lemma dict_set_dict_set: "dict_set (dict_set d k v) k v' = dict_set d k v'"
  by (induction d) auto

lemma dict_get_dict_del: "dict_get (dict_del d k) k' = (if k' = k then None else dict_get d k')"
  by (induction d) (auto simp: dict_del_def dict_get_def)

lemma dict_get_dict_dels: "k \<notin> set ks \<Longrightarrow> dict_get (foldl dict_del d ks) k = dict_get d k"
  by (induction ks arbitrary: d) (auto simp: dict_get_dict_del)

lemma emit_nodes_rows:
  "\<exists>F. \<forall>t. emit_nodes t ar toks ids =
          (case F of Inl e \<Rightarrow> Inl e | Inr rk \<Rightarrow> Inr (t\<lparr>rows := rows t @ fst rk\<rparr>, snd rk))"
proof (induction ids arbitrary: toks)
  case Nil
  have "\<forall>t. emit_nodes t ar toks [] =
          (case Inr ([], toks) of Inl e \<Rightarrow> Inl e | Inr rk \<Rightarrow> Inr (t\<lparr>rows := rows t @ fst rk\<rparr>, snd rk))"
    by simp
  then show ?case by blast
next
  case (Cons i ids)
  show ?case
  proof (cases "dict_get toks i")
    case None
    then have "\<forall>t. emit_nodes t ar toks (i # ids) =
          (case Inl KeyError of Inl e \<Rightarrow> Inl e | Inr rk \<Rightarrow> Inr (t\<lparr>rows := rows t @ fst rk\<rparr>, snd rk))"
      by simp
    then show ?thesis by blast
  next
    case (Some e)
    show ?thesis
    proof (cases "ns_consumed (nested_set e)")
      case True
      from Cons.IH [of toks] obtain F where
        F: "\<forall>t. emit_nodes t ar toks ids =
          (case F of Inl e \<Rightarrow> Inl e | Inr rk \<Rightarrow> Inr (t\<lparr>rows := rows t @ fst rk\<rparr>, snd rk))" by blast
      have "\<forall>t. emit_nodes t ar toks (i # ids) =
          (case F of Inl e \<Rightarrow> Inl e | Inr rk \<Rightarrow> Inr (t\<lparr>rows := rows t @ fst rk\<rparr>, snd rk))"
        using Some True F by simp
      then show ?thesis by blast
    next
      case False
      define row where "row = [(case ns_parent (nested_set e) of
                       None \<Rightarrow> []
                     | Some q \<Rightarrow> (case dict_get toks q of
                                   None \<Rightarrow> []
                                 | Some pe \<Rightarrow> str_nat (ns_cursor_id (nested_set pe)))),
                    str_nat (ns_cursor_id (nested_set e)), ns_label (nested_set e),
                    str_int (ar + ns_left (nested_set e)), str_int (ar + ns_right (nested_set e))]"
      define toks' where "toks' = upd_ns toks i (\<lambda>n. n\<lparr>ns_consumed := True\<rparr>)"
      from Cons.IH [of toks'] obtain F where
        F: "\<forall>t. emit_nodes t ar toks' ids =
          (case F of Inl e \<Rightarrow> Inl e | Inr rk \<Rightarrow> Inr (t\<lparr>rows := rows t @ fst rk\<rparr>, snd rk))" by blast
      have step: "emit_nodes t ar toks (i # ids) = emit_nodes (table_write t row) ar toks' ids" for t
        using Some False by (simp add: Let_def row_def toks'_def)
      have "\<forall>t. emit_nodes t ar toks (i # ids) =
          (case (case F of Inl e \<Rightarrow> Inl e | Inr rk \<Rightarrow> Inr (row # fst rk, snd rk)) of
             Inl e \<Rightarrow> Inl e | Inr rk \<Rightarrow> Inr (t\<lparr>rows := rows t @ fst rk\<rparr>, snd rk))"
        unfolding step using F by (auto simp del: emit_nodes.simps simp: table_write_def split: sum.splits)
      then show ?thesis by blast
    qed
  qed
qed

lemma segment_effect_skip:
  "Inr (t\<lparr>deps := dict_set (deps t) s toks\<rparr>, False) = segment_effect t s (Inr ([], anchor_right t, toks, False))"
  by (simp add: segment_effect_def)

lemma deps_segment_None:
  assumes "snd (link_tokens toks0 toks0 None) = None"
  shows "deps_segment t s toks0 = segment_effect t s (Inr ([], anchor_right t, fst (link_tokens toks0 toks0 None), False))"
  unfolding segment_effect_skip [symmetric] using assms by (simp add: deps_segment_def Let_def)

lemma deps_segment_no_root_entry:
  assumes "snd (link_tokens toks0 toks0 None) = Some r"
      and "dict_get (fst (link_tokens toks0 toks0 None)) r = None"
  shows "deps_segment t s toks0 = segment_effect t s (Inl KeyError)"
  using assms by (simp add: deps_segment_def Let_def segment_effect_def)

lemma deps_segment_consumed:
  assumes "snd (link_tokens toks0 toks0 None) = Some r"
      and "dict_get (fst (link_tokens toks0 toks0 None)) r = Some re"
      and "ns_consumed (nested_set re)"
  shows "deps_segment t s toks0 = segment_effect t s (Inr ([], anchor_right t, fst (link_tokens toks0 toks0 None), False))"
  unfolding segment_effect_skip [symmetric] using assms by (simp add: deps_segment_def Let_def)

lemma deps_segment_tree:
  assumes "snd (link_tokens toks0 toks0 None) = Some r"
      and "dict_get (fst (link_tokens toks0 toks0 None)) r = Some re"
      and "\<not> ns_consumed (nested_set re)"
  shows "deps_segment t s toks0 =
              bind_r (compute_anchors (Suc (length (fst (link_tokens toks0 toks0 None)))) (fst (link_tokens toks0 toks0 None)) r 1) (\<lambda>tc.
              bind_r (all_ids (Suc (length (fst (link_tokens toks0 toks0 None)))) (fst tc) r) (\<lambda>ids.
              bind_r (emit_nodes (t\<lparr>deps := dict_set (deps t) s (fst (link_tokens toks0 toks0 None))\<rparr>) (anchor_right t) (fst tc) ids) (\<lambda>tt.
                bind_r (pop_ids (dict_keys (upd_ns (snd tt) r (\<lambda>n. n\<lparr>ns_consumed := True\<rparr>))) ids) (\<lambda>left.
                  Inr ((fst tt)\<lparr>anchor_right := anchor_right t
                                    + (case dict_get (snd tt) r of None \<Rightarrow> 0 | Some e \<Rightarrow> ns_right (nested_set e)),
                                  deps := dict_set (deps (fst tt)) s
                                            (upd_ns (snd tt) r (\<lambda>n. n\<lparr>ns_consumed := True\<rparr>))\<rparr>,
                       left = [])))))"
  unfolding deps_segment_def Let_def using assms by (simp del: compute_anchors.simps all_ids.simps)

lemma deps_segment_effect:
  "\<exists>F. \<forall>t. anchor_right t = ar \<longrightarrow> deps_segment t s toks0 = segment_effect t s F"
proof -
  define toks where "toks = fst (link_tokens toks0 toks0 None)"
  define root where "root = snd (link_tokens toks0 toks0 None)"
  define fuel where "fuel = Suc (length toks)"
  show ?thesis
  proof (cases root)
    case None
    then have "\<forall>t. anchor_right t = ar \<longrightarrow> deps_segment t s toks0 = segment_effect t s (Inr ([], ar, toks, False))"
      using deps_segment_None [of toks0 _ s] by (simp add: root_def toks_def)
    then show ?thesis by blast
  next
    case (Some r)
    show ?thesis
    proof (cases "dict_get toks r")
      case None
      then have "\<forall>t. anchor_right t = ar \<longrightarrow> deps_segment t s toks0 = segment_effect t s (Inl KeyError)"
        using Some deps_segment_no_root_entry [of toks0 r _ s] by (simp add: root_def toks_def)
      then show ?thesis by blast
    next
      case re: (Some re)
      show ?thesis
      proof (cases "ns_consumed (nested_set re)")
        case True
        then have "\<forall>t. anchor_right t = ar \<longrightarrow> deps_segment t s toks0 = segment_effect t s (Inr ([], ar, toks, False))"
          using Some re deps_segment_consumed [of toks0 r re _ s] by (simp add: root_def toks_def)
        then show ?thesis by blast
      next
        case False
        have unfold: "deps_segment t s toks0 =
              bind_r (compute_anchors fuel toks r 1) (\<lambda>tc.
              bind_r (all_ids fuel (fst tc) r) (\<lambda>ids.
              bind_r (emit_nodes (t\<lparr>deps := dict_set (deps t) s toks\<rparr>) (anchor_right t) (fst tc) ids) (\<lambda>tt.
                bind_r (pop_ids (dict_keys (upd_ns (snd tt) r (\<lambda>n. n\<lparr>ns_consumed := True\<rparr>))) ids) (\<lambda>left.
                  Inr ((fst tt)\<lparr>anchor_right := anchor_right t
                                    + (case dict_get (snd tt) r of None \<Rightarrow> 0 | Some e \<Rightarrow> ns_right (nested_set e)),
                                  deps := dict_set (deps (fst tt)) s
                                            (upd_ns (snd tt) r (\<lambda>n. n\<lparr>ns_consumed := True\<rparr>))\<rparr>,
                       left = [])))))" for t
          unfolding toks_def fuel_def
          using Some re False by (intro deps_segment_tree [of toks0 r re]) (simp_all add: root_def toks_def)
        show ?thesis
        proof (cases "compute_anchors fuel toks r 1")
          case (Inl e)
          have "\<forall>t. anchor_right t = ar \<longrightarrow> deps_segment t s toks0 = segment_effect t s (Inl e)"
            unfolding unfold Inl by (simp add: bind_r_def segment_effect_def)
          then show ?thesis by blast
        next
          case tc: (Inr tc)
          show ?thesis
          proof (cases "all_ids fuel (fst tc) r")
            case (Inl e)
            have "\<forall>t. anchor_right t = ar \<longrightarrow> deps_segment t s toks0 = segment_effect t s (Inl e)"
              unfolding unfold tc by (simp add: Inl bind_r_def segment_effect_def)
            then show ?thesis by blast
          next
            case ids: (Inr ids)
            from emit_nodes_rows [of ar "fst tc" ids] obtain G where
              G: "\<And>t. emit_nodes t ar (fst tc) ids =
                (case G of Inl e \<Rightarrow> Inl e | Inr rk \<Rightarrow> Inr (t\<lparr>rows := rows t @ fst rk\<rparr>, snd rk))"
              by blast
            have unfold2: "deps_segment t s toks0 =
              bind_r (emit_nodes (t\<lparr>deps := dict_set (deps t) s toks\<rparr>) ar (fst tc) ids) (\<lambda>tt.
                bind_r (pop_ids (dict_keys (upd_ns (snd tt) r (\<lambda>n. n\<lparr>ns_consumed := True\<rparr>))) ids) (\<lambda>left.
                  Inr ((fst tt)\<lparr>anchor_right := ar
                                    + (case dict_get (snd tt) r of None \<Rightarrow> 0 | Some e \<Rightarrow> ns_right (nested_set e)),
                                  deps := dict_set (deps (fst tt)) s
                                            (upd_ns (snd tt) r (\<lambda>n. n\<lparr>ns_consumed := True\<rparr>))\<rparr>,
                       left = [])))" if "anchor_right t = ar" for t
              unfolding unfold tc using that by (simp add: ids bind_r_def)
            show ?thesis
            proof (cases G)
              case (Inl e)
              have "\<forall>t. anchor_right t = ar \<longrightarrow> deps_segment t s toks0 = segment_effect t s (Inl e)"
                by (simp add: unfold2 G Inl bind_r_def segment_effect_def)
              then show ?thesis by blast
            next
              case rk: (Inr rk)
              define toks' where "toks' = upd_ns (snd rk) r (\<lambda>n. n\<lparr>ns_consumed := True\<rparr>)"
              define ar' where "ar' = ar + (case dict_get (snd rk) r of None \<Rightarrow> 0 | Some e \<Rightarrow> ns_right (nested_set e))"
              have unfold3: "deps_segment t s toks0 =
                bind_r (pop_ids (dict_keys toks') ids) (\<lambda>left.
                  Inr (t\<lparr>rows := rows t @ fst rk, anchor_right := ar', deps := dict_set (deps t) s toks'\<rparr>,
                       left = []))" if "anchor_right t = ar" for t
                using that by (simp add: unfold2 G rk bind_r_def toks'_def ar'_def dict_set_dict_set split: sum.splits)
              show ?thesis
              proof (cases "pop_ids (dict_keys toks') ids")
                case (Inl e)
                have "\<forall>t. anchor_right t = ar \<longrightarrow> deps_segment t s toks0 = segment_effect t s (Inl e)"
                  by (simp add: unfold3 Inl bind_r_def segment_effect_def)
                then show ?thesis by blast
              next
                case left: (Inr left)
                have "\<forall>t. anchor_right t = ar \<longrightarrow> deps_segment t s toks0
                         = segment_effect t s (Inr (fst rk, ar', toks', left = []))"
                  by (simp add: unfold3 left bind_r_def segment_effect_def)
                then show ?thesis by blast
              qed
            qed
          qed
        qed
      qed
    qed
  qed
qed

lemma deps_segment_deps:
  assumes "deps_segment t s toks = Inr tb"
  shows "\<exists>X. deps (fst tb) = dict_set (deps t) s X"
proof -
  obtain F where F: "\<forall>t0. anchor_right t0 = anchor_right t \<longrightarrow> deps_segment t0 s toks = segment_effect t0 s F"
    using deps_segment_effect [of "anchor_right t" s toks] by blast
  then have "segment_effect t s F = Inr tb" using assms by simp
  then show ?thesis by (auto simp: segment_effect_def split: sum.splits)
qed

lemma deps_segments_retains:
  assumes "deps_segments t w items acc = Inr ta"
      and "\<forall>kv\<in>set items. fst kv = sid \<longrightarrow> snd kv = tokens"
      and "\<forall>kv\<in>set tokens. head_id (snd kv) \<noteq> []"
      and "map_option dict_keys (dict_get (deps t) sid) = Some (dict_keys tokens)"
      and "sid \<notin> set acc"
  shows "map_option dict_keys (dict_get (deps (fst ta)) sid) = Some (dict_keys tokens) \<and> sid \<notin> set (snd ta)"
  using assms
proof (induction items arbitrary: t acc)
  case Nil
  then show ?case by auto
next
  case (Cons kv rest)
  have rest: "\<forall>kv\<in>set rest. fst kv = sid \<longrightarrow> snd kv = tokens" using Cons.prems(2) by simp
  show ?case
  proof (cases "fst kv = w")
    case True
    then have "deps_segments t w rest acc = Inr ta" using Cons.prems(1) by simp
    then show ?thesis using rest Cons.prems(3,4,5) by (rule Cons.IH)
  next
    case False
    then obtain tb where tb: "deps_segment t (fst kv) (snd kv) = Inr tb"
        and run: "deps_segments (fst tb) w rest (if snd tb then acc @ [fst kv] else acc) = Inr ta"
      using Cons.prems(1) by (auto split: sum.splits)
    show ?thesis
    proof (cases "fst kv = sid")
      case True
      then have "snd kv = tokens" using Cons.prems(2) by simp
      then have "tb = (t\<lparr>deps := dict_set (deps t) sid (fst (link_tokens tokens tokens None))\<rparr>, False)"
        using tb True deps_segment_rootless [OF Cons.prems(3), of t sid] by simp
      then have keep: "map_option dict_keys (dict_get (deps (fst tb)) sid) = Some (dict_keys tokens)"
          and acc: "sid \<notin> set (if snd tb then acc @ [fst kv] else acc)"
        using Cons.prems(5) by (simp_all add: dict_get_dict_set link_tokens_keys)
      from run rest Cons.prems(3) keep acc show ?thesis by (rule Cons.IH)
    next
      case other: False
      obtain X where "deps (fst tb) = dict_set (deps t) (fst kv) X"
        using deps_segment_deps [OF tb] by blast
      then have keep: "map_option dict_keys (dict_get (deps (fst tb)) sid) = Some (dict_keys tokens)"
        using other Cons.prems(4) by (simp add: dict_get_dict_set)
      have acc: "sid \<notin> set (if snd tb then acc @ [fst kv] else acc)"
        using other Cons.prems(5) by auto
      from run rest Cons.prems(3) keep acc show ?thesis by (rule Cons.IH)
    qed
  qed
qed

lemma deps_segments_without:
  assumes "\<forall>kv\<in>set items. fst kv = sid \<longrightarrow> (\<forall>e\<in>set (snd kv). head_id (snd e) \<noteq> [])"
      and "rows t1 = rows t2" and "anchor_right t1 = anchor_right t2"
  shows "progress (deps_segments t1 w items acc) = progress (deps_segments t2 w (dict_del items sid) acc)"
  using assms
proof (induction items arbitrary: t1 t2 acc)
  case Nil
  then show ?case by (simp add: progress_def dict_del_def)
next
  case (Cons kv rest)
  have rest: "\<forall>kv\<in>set rest. fst kv = sid \<longrightarrow> (\<forall>e\<in>set (snd kv). head_id (snd e) \<noteq> [])"
    using Cons.prems(1) by simp
  show ?case
  proof (cases "fst kv = sid")
    case True
    then have rootless: "\<forall>e\<in>set (snd kv). head_id (snd e) \<noteq> []" using Cons.prems(1) by simp
    have del: "dict_del (kv # rest) sid = dict_del rest sid" using True by (simp add: dict_del_def)
    show ?thesis
    proof (cases "sid = w")
      case True
      then have "deps_segments t1 w (kv # rest) acc = deps_segments t1 w rest acc"
        using \<open>fst kv = sid\<close> by simp
      then show ?thesis unfolding del using Cons.IH [OF rest Cons.prems(2,3)] by simp
    next
      case False
      define t1' where "t1' = t1\<lparr>deps := dict_set (deps t1) sid (fst (link_tokens (snd kv) (snd kv) None))\<rparr>"
      have "deps_segments t1 w (kv # rest) acc = deps_segments t1' w rest acc"
        using \<open>fst kv = sid\<close> False deps_segment_rootless [OF rootless, of t1 sid] by (simp add: t1'_def)
      moreover have "rows t1' = rows t2" "anchor_right t1' = anchor_right t2"
        using Cons.prems(2,3) by (simp_all add: t1'_def)
      ultimately show ?thesis unfolding del using Cons.IH [OF rest, of t1' t2] by simp
    qed
  next
    case False
    then have del: "dict_del (kv # rest) sid = kv # dict_del rest sid" by (simp add: dict_del_def)
    show ?thesis
    proof (cases "fst kv = w")
      case True
      then show ?thesis unfolding del using Cons.IH [OF rest Cons.prems(2,3)] by simp
    next
      case nw: False
      obtain F where F: "\<forall>t0. anchor_right t0 = anchor_right t1 \<longrightarrow> deps_segment t0 (fst kv) (snd kv) = segment_effect t0 (fst kv) F"
        using deps_segment_effect [of "anchor_right t1" "fst kv" "snd kv"] by blast
      have s1: "deps_segment t1 (fst kv) (snd kv) = segment_effect t1 (fst kv) F" using F by simp
      have s2: "deps_segment t2 (fst kv) (snd kv) = segment_effect t2 (fst kv) F" using F Cons.prems(3) by simp
      show ?thesis
      proof (cases F)
        case (Inl e)
        then show ?thesis unfolding del using nw s1 s2 by (simp add: segment_effect_def progress_def)
      next
        case (Inr r)
        define u1 where "u1 = t1\<lparr>rows := rows t1 @ fst r, anchor_right := fst (snd r),
                         deps := dict_set (deps t1) (fst kv) (fst (snd (snd r)))\<rparr>"
        define u2 where "u2 = t2\<lparr>rows := rows t2 @ fst r, anchor_right := fst (snd r),
                         deps := dict_set (deps t2) (fst kv) (fst (snd (snd r)))\<rparr>"
        define acc' where "acc' = (if snd (snd (snd r)) then acc @ [fst kv] else acc)"
        have "deps_segments t1 w (kv # rest) acc = deps_segments u1 w rest acc'"
          using nw s1 Inr by (simp add: segment_effect_def u1_def acc'_def)
        moreover have "deps_segments t2 w (kv # dict_del rest sid) acc = deps_segments u2 w (dict_del rest sid) acc'"
          using nw s2 Inr by (simp add: segment_effect_def u2_def acc'_def)
        moreover have "rows u1 = rows u2" "anchor_right u1 = anchor_right u2"
          using Cons.prems(2) by (simp_all add: u1_def u2_def)
        ultimately show ?thesis unfolding del using Cons.IH [OF rest, of u1 u2 acc'] by simp
      qed
    qed
  qed
qed

text \<open>
  C7. A buffered segment none of whose entries has an empty head leaves no trace in a call
  of \<open>write_token_deps\<close>: the call raises the same exception, or writes the same rows and
  ends with the same anchor, as it does on the table without that segment, so no row and
  no exception comes from it; and when the call returns, the segment is still in the
  buffer with the same token ids. \<open>rootless_buffer_returns\<close> adds that the call returns
  when every segment but the current one is of this kind.
\<close>

theorem rootless_segment_skipped:
  assumes "distinct (dict_keys (deps t))"
      and "dict_get (deps t) sid = Some tokens"
      and "\<forall>kv\<in>set tokens. head_id (snd kv) \<noteq> []"
  shows "written (write_token_deps t working_on) = written (write_token_deps (without_segment t sid) working_on)
         \<and> (\<forall>t'. write_token_deps t working_on = Inr t'
                \<longrightarrow> map_option dict_keys (dict_get (deps t') sid) = Some (dict_keys tokens))"
proof
  have d: "distinct (map fst (deps t))" using assms(1) by (simp add: dict_keys_def)
  have only: "\<forall>kv\<in>set (deps t). fst kv = sid \<longrightarrow> snd kv = tokens"
    using d assms(2) dict_get_mem [OF d] by auto
  have rootless: "\<forall>kv\<in>set (deps t). fst kv = sid \<longrightarrow> (\<forall>e\<in>set (snd kv). head_id (snd e) \<noteq> [])"
    using only assms(3) by auto
  have "progress (deps_segments t working_on (deps t) [])
          = progress (deps_segments (without_segment t sid) working_on (dict_del (deps t) sid) [])"
    using rootless by (rule deps_segments_without) (simp_all add: without_segment_def)
  then show "written (write_token_deps t working_on) = written (write_token_deps (without_segment t sid) working_on)"
    by (auto simp: written_def write_token_deps_def progress_def without_segment_def split: sum.splits)
  show "\<forall>t'. write_token_deps t working_on = Inr t'
                \<longrightarrow> map_option dict_keys (dict_get (deps t') sid) = Some (dict_keys tokens)"
  proof (intro allI impI)
    fix t' assume run: "write_token_deps t working_on = Inr t'"
    then obtain ta where ta: "deps_segments t working_on (deps t) [] = Inr ta"
        and t': "t' = (fst ta)\<lparr>deps := foldl dict_del (deps (fst ta)) (snd ta)\<rparr>"
      by (auto simp: write_token_deps_def split: sum.splits)
    have "map_option dict_keys (dict_get (deps (fst ta)) sid) = Some (dict_keys tokens) \<and> sid \<notin> set (snd ta)"
      using ta only assms(3) by (rule deps_segments_retains) (simp_all add: assms(2))
    then show "map_option dict_keys (dict_get (deps t') sid) = Some (dict_keys tokens)"
      by (simp add: t' dict_get_dict_dels)
  qed
qed

theorem rootless_segment_skipped_witness:
  "written (write_token_deps (without_segment mixed_table ''s0'') ''s2'')
     = Inr ([[[], ''4'', ''root'', ''1'', ''4''], [''4'', ''3'', ''nsubj'', ''2'', ''3'']], 4)
   \<and> written (write_token_deps mixed_table ''s2'')
     = Inr ([[[], ''4'', ''root'', ''1'', ''4''], [''4'', ''3'', ''nsubj'', ''2'', ''3'']], 4)
   \<and> (\<exists>t'. write_token_deps mixed_table ''s2'' = Inr t'
          \<and> map_option dict_keys (dict_get (deps t') ''s0'') = Some [''1'', ''2''])"
proof -
  have d: "distinct (dict_keys (deps mixed_table))"
    by (simp add: mixed_table_def dict_keys_def)
  have g: "dict_get (deps mixed_table) ''s0''
             = Some [(''1'', \<lparr>head_id = ''2'', nested_set = NestedSet ''1'' ''det'' 1\<rparr>),
                     (''2'', \<lparr>head_id = ''9'', nested_set = NestedSet ''2'' ''obj'' 2\<rparr>)]"
    by (simp add: mixed_table_def dict_get_def)
  have r: "\<forall>kv\<in>set [(''1'', \<lparr>head_id = ''2'', nested_set = NestedSet ''1'' ''det'' 1\<rparr>),
                       (''2'', \<lparr>head_id = ''9'', nested_set = NestedSet ''2'' ''obj'' 2\<rparr>)].
             head_id (snd kv) \<noteq> []"
    by simp
  note skipped = rootless_segment_skipped [OF d g r, of "''s2''"]
  have without: "written (write_token_deps (without_segment mixed_table ''s0'') ''s2'')
     = Inr ([[[], ''4'', ''root'', ''1'', ''4''], [''4'', ''3'', ''nsubj'', ''2'', ''3'']], 4)"
    by code_simp
  with skipped have run: "written (write_token_deps mixed_table ''s2'')
     = Inr ([[[], ''4'', ''root'', ''1'', ''4''], [''4'', ''3'', ''nsubj'', ''2'', ''3'']], 4)"
    by simp
  then obtain t' where t': "write_token_deps mixed_table ''s2'' = Inr t'"
    by (auto simp: written_def split: sum.splits)
  with skipped have "map_option dict_keys (dict_get (deps t') ''s0'') = Some [''1'', ''2'']"
    by (simp add: dict_keys_def)
  with without run t' show ?thesis by blast
qed

subsection \<open>Aligned entities\<close>

lemma find_line_None: "fk \<notin> set (first_column lines) \<Longrightarrow> find_line lines fk = None"
  by (induction lines) (auto simp: first_column_def split: list.splits)

lemma lower_char_idem: "lower_char (lower_char c) = lower_char c"
  by (auto simp: lower_char_def latin1_capitals_def latin1_smalls_def)

lemma lower_idem: "lower (lower s) = lower s"
  by (simp add: lower_def lower_char_idem)

lemma frame_range_cur_set_table [simp]: "frame_range_cur (set_table p k t) = frame_range_cur p"
  by (simp add: set_table_def)

lemma dict_get_set_table: "dict_get (tables (set_table p k t)) k' = (if k' = k then Some t else dict_get (tables p) k')"
  by (simp add: set_table_def dict_get_dict_set)

lemma entity_header_frame:
  "entity_header p a la cns acc = Inr pc \<Longrightarrow>
     frame_range_cur (fst pc) = frame_range_cur p \<and> dict_get (tables (fst pc)) a = dict_get (tables p) a"
  by (induction cns arbitrary: p acc)
     (auto simp: dict_get_set_table split: option.splits if_splits)

lemma create_entity_table_fresh:
  assumes "create_entity_table p a ln la ae = Inr p1"
  shows "frame_range_cur p1 = frame_range_cur p
         \<and> (\<exists>t. dict_get (tables p1) a = Some t \<and> current_entity t = empty_entity)"
  using assms
  by (auto simp: create_entity_table_def Let_def dict_get_set_table Table_def table_write_def
           split: sum.splits option.splits dest!: entity_header_frame)


lemma bare_entity_close_raises:
  assumes "dict_get aes (lower n') = Some ae"
      and "dict_get (tables q) (lower n') = Some t"
      and "e_cols (current_entity t) = None"
      and "e_id (current_entity t) = Some i"
      and "strip v' \<noteq> i"
  shows "aligned_entity q (Text n' v') aes = Inl KeyError"
proof -
  have ne: "current_entity t \<noteq> empty_entity"
    using assms(4) by (auto simp: empty_entity_def)
  have cl: "close_entity q t la b = Inl KeyError" for la b
    using assms(3) by (simp add: close_entity_def Let_def)
  show ?thesis
    using assms(1,2,4,5) ne cl
    by (simp add: aligned_entity_def Let_def dict_has_def dict_get_def bind_r_def)
qed

lemma open_entity_unknown:
  assumes "find_line (fn ae) fk = None" and "fk \<noteq> []" and "strip fk \<noteq> ''_''"
  shows "open_entity p t a fk la ae
           = Inr (p, t\<lparr>current_entity :=
                        \<lparr>e_id = Some fk, e_cols = None, e_range_low = None,
                         e_frame_range_start = (if time_anchored ae then Some (frame_range_cur p) else None)\<rparr>\<rparr>)"
  using assms by (simp add: open_entity_def Let_def)

lemma aligned_entity_unknown:
  assumes run: "aligned_entity p (Text n v) aes = Inr p'"
      and ae: "dict_get aes (lower n) = Some ae"
      and fk: "strip v \<noteq> []" "strip (strip v) \<noteq> ''_''"
      and absent: "strip v \<notin> set (first_column (fn ae))"
      and other: "current_id p (lower n) \<noteq> strip v"
  shows "\<exists>t'. dict_get (tables p') (lower n) = Some t'
            \<and> current_entity t' =
                \<lparr>e_id = Some (strip v), e_cols = None, e_range_low = None,
                 e_frame_range_start = (if time_anchored ae then Some (frame_range_cur p) else None)\<rparr>"
proof -
  define a where "a = lower n"
  define ln where "ln = find_layer (config p) a"
  define la where "la = layer_attrs (config p) ln"
  define start where "start = (if dict_has (tables p) a then Inr p else create_entity_table p a ln la ae)"
  have unfolded: "aligned_entity p (Text n v) aes
      = bind_r start (\<lambda>p1. case dict_get (tables p1) a of
                    None \<Rightarrow> Inl KeyError
                  | Some t \<Rightarrow>
                      if strip v = (case e_id (current_entity t) of None \<Rightarrow> [] | Some i \<Rightarrow> i) then Inr p1
                      else bind_r (if current_entity t \<noteq> empty_entity
                                    then close_entity p1 t la (time_anchored ae) else Inr t) (\<lambda>t1.
                           bind_r (open_entity p1 t1 a (strip v) la ae) (\<lambda>pt.
                              Inr (set_table (fst pt) a (snd pt)))))"
    unfolding aligned_entity_def Let_def a_def la_def ln_def start_def attr_name.simps attr_str.simps
    using ae by simp
  obtain p1 where p1: "start = Inr p1"
    using run unfolded by (cases start) (auto simp: bind_r_def)
  have p1_facts: "frame_range_cur p1 = frame_range_cur p \<and>
                  (\<exists>t. dict_get (tables p1) a = Some t \<and> current_id p1 a \<noteq> strip v)"
  proof (cases "dict_has (tables p) a")
    case True
    then have "p1 = p" using p1 by (simp add: start_def)
    then show ?thesis using True other by (auto simp: a_def dict_has_def dict_get_def)
  next
    case False
    then have "create_entity_table p a ln la ae = Inr p1" using p1 by (simp add: start_def)
    from create_entity_table_fresh [OF this] show ?thesis
      using fk(1) by (auto simp: current_id_def empty_entity_def)
  qed
  then obtain t where t: "dict_get (tables p1) a = Some t" and cid: "current_id p1 a \<noteq> strip v"
    and fr: "frame_range_cur p1 = frame_range_cur p" by blast
  have idne: "strip v \<noteq> (case e_id (current_entity t) of None \<Rightarrow> [] | Some i \<Rightarrow> i)"
    using cid t by (simp add: current_id_def)
  define closed where "closed = (if current_entity t \<noteq> empty_entity
                                    then close_entity p1 t la (time_anchored ae) else Inr t)"
  have run': "bind_r closed (\<lambda>t1. bind_r (open_entity p1 t1 a (strip v) la ae)
                 (\<lambda>pt. Inr (set_table (fst pt) a (snd pt)))) = Inr p'"
    using run unfolded p1 t idne by (simp add: bind_r_def closed_def)
  then obtain t1 where t1: "closed = Inr t1"
    by (cases closed) (auto simp: bind_r_def)
  have op: "open_entity p1 t1 a (strip v) la ae
              = Inr (p1, t1\<lparr>current_entity :=
                        \<lparr>e_id = Some (strip v), e_cols = None, e_range_low = None,
                         e_frame_range_start = (if time_anchored ae then Some (frame_range_cur p1) else None)\<rparr>\<rparr>)"
    using open_entity_unknown [OF find_line_None [OF absent] fk] .
  have "p' = set_table p1 a (t1\<lparr>current_entity :=
                        \<lparr>e_id = Some (strip v), e_cols = None, e_range_low = None,
                         e_frame_range_start = (if time_anchored ae then Some (frame_range_cur p1) else None)\<rparr>\<rparr>)"
    using run' t1 op by (simp add: bind_r_def)
  then show ?thesis
    using fr by (simp add: dict_get_set_table a_def)
qed

lemma strip_dummy: "strip ''dummy'' = ''dummy''"
  by (simp add: strip_def lstrip_def rstrip_def is_space_def)

lemma same_key_returns:
  assumes "dict_get aes (lower n') = Some ae"
      and "dict_get (tables q) (lower n') = Some t"
      and "e_id (current_entity t) = Some (strip v')"
  shows "aligned_entity q (Text n' v') aes = Inr q"
  using assms
  by (simp add: aligned_entity_def Let_def dict_has_def dict_get_def bind_r_def)

text \<open>
  C10, amended. A call of \<open>aligned_entity\<close> that returns, for a Text attribute whose
  stripped value is not empty, is not the placeholder \<open>_\<close>, is not the id of the entity
  open so far and is the first field of no line of the reference file, leaves the entity
  type's table with a current entity that holds its id, no \<open>cols\<close> and no \<open>range_low\<close>
  (and \<open>frame_range_start\<close> exactly when the entity type is time-anchored). Every later
  call with another key then raises \<open>KeyError\<close> on reading \<open>cols\<close>. So does
  \<open>close_aligned_entity\<close>, whose key is \<open>dummy\<close>, unless the open id is \<open>dummy\<close> itself:
  then it returns, and the entity is dropped without a row.
\<close>

theorem unknown_key_opens_bare_entity:
  assumes "aligned_entity p (Text n v) aes = Inr p'"
      and "dict_get aes (lower n) = Some ae"
      and "strip v \<noteq> []" and "strip (strip v) \<noteq> ''_''"
      and "strip v \<notin> set (first_column (fn ae))"
      and "current_id p (lower n) \<noteq> strip v"
  shows "\<exists>t'. dict_get (tables p') (lower n) = Some t'
            \<and> current_entity t' =
                \<lparr>e_id = Some (strip v), e_cols = None, e_range_low = None,
                 e_frame_range_start = (if time_anchored ae then Some (frame_range_cur p) else None)\<rparr>
            \<and> (\<forall>v'. strip v' \<noteq> strip v \<longrightarrow> aligned_entity p' (Text n v') aes = Inl KeyError)
            \<and> close_aligned_entity p' (lower n) aes
                = (if strip v = ''dummy''
                   then Inr (set_table p' (lower n) (t'\<lparr>current_entity := empty_entity\<rparr>))
                   else Inl KeyError)"
proof -
  obtain t' where t': "dict_get (tables p') (lower n) = Some t'"
      "current_entity t' =
                \<lparr>e_id = Some (strip v), e_cols = None, e_range_low = None,
                 e_frame_range_start = (if time_anchored ae then Some (frame_range_cur p) else None)\<rparr>"
    using aligned_entity_unknown [OF assms] by blast
  have cols: "e_cols (current_entity t') = None" and eid: "e_id (current_entity t') = Some (strip v)"
    using t'(2) by simp_all
  have next_call: "aligned_entity p' (Text n v') aes = Inl KeyError" if "strip v' \<noteq> strip v" for v'
    using bare_entity_close_raises [OF assms(2) t'(1) cols eid that] .
  have ae': "dict_get aes (lower (lower n)) = Some ae"
    and t'': "dict_get (tables p') (lower (lower n)) = Some t'"
    using assms(2) t'(1) by (simp_all add: lower_idem)
  have close_call: "close_aligned_entity p' (lower n) aes
                = (if strip v = ''dummy''
                   then Inr (set_table p' (lower n) (t'\<lparr>current_entity := empty_entity\<rparr>))
                   else Inl KeyError)"
  proof (cases "strip v = ''dummy''")
    case True
    then have "e_id (current_entity t') = Some (strip ''dummy'')"
      using eid by (simp add: strip_dummy)
    from same_key_returns [OF ae' t'' this]
    show ?thesis using True t'(1) by (simp add: close_aligned_entity_def bind_r_def)
  next
    case False
    then have "strip ''dummy'' \<noteq> strip v" by (simp add: strip_dummy)
    from bare_entity_close_raises [OF ae' t'' cols eid this]
    show ?thesis using False by (simp add: close_aligned_entity_def bind_r_def)
  qed
  show ?thesis using t' next_call close_call by blast
qed

theorem unknown_key_opens_bare_entity_witness:
  "\<exists>p'. aligned_entity (Parser ne_schema) (Text ''ne'' ''E9'') (aligned_entities (ne_args ne_file)) = Inr p'
        \<and> current_id p' ''ne'' = ''E9''
        \<and> aligned_entity p' (Text ''ne'' ''E1'') (aligned_entities (ne_args ne_file)) = Inl KeyError
        \<and> close_aligned_entity p' ''ne'' (aligned_entities (ne_args ne_file)) = Inl KeyError"
proof -
  let ?aes = "aligned_entities (ne_args ne_file)"
  let ?ae = "\<lparr>fn = ne_file, time_anchored = False\<rparr>"
  have "case aligned_entity (Parser ne_schema) (Text ''ne'' ''E9'') ?aes of Inl e \<Rightarrow> False | Inr q \<Rightarrow> True"
    by code_simp
  then obtain p' where run: "aligned_entity (Parser ne_schema) (Text ''ne'' ''E9'') ?aes = Inr p'"
    by (cases "aligned_entity (Parser ne_schema) (Text ''ne'' ''E9'') ?aes") auto
  have low: "lower ''ne'' = ''ne''" by code_simp
  have s9: "strip ''E9'' = ''E9''" by code_simp
  have s1: "strip ''E1'' = ''E1''" by code_simp
  have h2: "dict_get ?aes (lower ''ne'') = Some ?ae" by code_simp
  have h3: "strip ''E9'' \<noteq> []" by code_simp
  have h4: "strip (strip ''E9'') \<noteq> ''_''" by code_simp
  have h5: "strip ''E9'' \<notin> set (first_column (fn ?ae))" by code_simp
  have h6: "current_id (Parser ne_schema) (lower ''ne'') \<noteq> strip ''E9''" by code_simp
  obtain t' where t': "dict_get (tables p') (lower ''ne'') = Some t'"
      "e_id (current_entity t') = Some (strip ''E9'')"
      "\<forall>v'. strip v' \<noteq> strip ''E9'' \<longrightarrow> aligned_entity p' (Text ''ne'' v') ?aes = Inl KeyError"
      "close_aligned_entity p' (lower ''ne'') ?aes
                = (if strip ''E9'' = ''dummy''
                   then Inr (set_table p' (lower ''ne'') (t'\<lparr>current_entity := empty_entity\<rparr>))
                   else Inl KeyError)"
    using unknown_key_opens_bare_entity [OF run h2 h3 h4 h5 h6] by auto
  have "current_id p' ''ne'' = ''E9''"
    using t'(1,2) by (simp add: current_id_def low s9)
  moreover have "aligned_entity p' (Text ''ne'' ''E1'') ?aes = Inl KeyError"
    using t'(3) by (simp add: s1 s9)
  moreover have "close_aligned_entity p' ''ne'' ?aes = Inl KeyError"
    using t'(4) by (simp add: low s9)
  ultimately show ?thesis using run by blast
qed

subsection \<open>The full-text-search row\<close>

lemma map_of_upd_entries:
  "map_of (map (\<lambda>kv. if fst kv = k then (fst kv, f (snd kv)) else kv) d) k'
     = (if k' = k then map_option f (map_of d k') else map_of d k')"
  by (induction d) auto

lemma dict_get_upd_table:
  "dict_get (tables (upd_table p k f)) k'
     = (if k' = k then map_option f (dict_get (tables p) k') else dict_get (tables p) k')"
  by (simp add: upd_table_def dict_get_def map_of_upd_entries)

lemma segment_attr_appends:
  "segment_attr a pc at = Inr pc' \<Longrightarrow> \<exists>ys. snd pc' = snd pc @ ys"
  by (auto simp: segment_attr_def Let_def bind_r_def split: if_splits sum.splits option.splits)

lemma segment_attrs_append:
  "foldl_r (segment_attr a) pc ats = Inr pc' \<Longrightarrow> \<exists>ys. snd pc' = snd pc @ ys"
proof (induction ats arbitrary: pc)
  case Nil
  then show ?case by simp
next
  case (Cons at ats)
  then obtain pc1 where s1: "segment_attr a pc at = Inr pc1" and r: "foldl_r (segment_attr a) pc1 ats = Inr pc'"
    by (auto split: sum.splits)
  from segment_attr_appends [OF s1] Cons.IH [OF r] show ?case by auto
qed

lemma segment_row_cols:
  assumes "segment_row a seg_name start gs seg = Inr pc"
  shows "\<exists>ys. snd pc = s_id seg # ys"
  using assms
  by (auto simp: segment_row_def Let_def bind_r_def
        split: if_splits sum.splits option.splits dest!: segment_attrs_append)

lemma fts_vector_appends:
  assumes "fts_vector a seg_name nn p seg cols = Inr p'"
  shows "\<exists>hdr v. table_rows p' ''fts_vector'' = table_rows p ''fts_vector'' @ hdr @ [take 1 cols @ [v]]"
  using assms
  by (auto simp: fts_vector_def token_have_dependencies_def Let_def bind_r_def table_rows_def
        dict_get_upd_table dict_get_set_table dict_has_def dict_get_def [symmetric] table_write_def Table_def
      split: sum.splits option.splits if_splits)

text \<open>
  C3, amended. Whenever the body of the loop returns for a yielded segment, the last row
  of the \<open>fts_vector\<close> table is a row of that segment, its id followed by the vector,
  whatever attributes the tokens carry: \<open>token_have_dependencies\<close> is never set, so the
  full-text-search step always runs.
\<close>

theorem fts_row_for_every_segment:
  assumes "process_pair a offset_frame_range g (Some seg, doc) = Inr g'"
  shows "\<exists>earlier v. table_rows (g_parser g') ''fts_vector'' = earlier @ [[s_id seg, v]]"
proof -
  from assms obtain gs pc nn p3 where
      row: "segment_row a (class_name a ''segment'') (char_range_cur (g_parser g)) gs seg = Inr pc"
      and fts: "fts_vector a (class_name a ''segment'') nn (fst pc) seg (snd pc) = Inr p3"
      and g': "g' = (fst gs)\<lparr>g_parser := p3\<rparr>"
    by (auto simp: process_pair_def Let_def bind_r_def split: sum.splits)
  from segment_row_cols [OF row] obtain ys where ys: "snd pc = s_id seg # ys" by blast
  from fts_vector_appends [OF fts] obtain hdr v where
    "table_rows p3 ''fts_vector'' = table_rows (fst pc) ''fts_vector'' @ hdr @ [take 1 (snd pc) @ [v]]"
    by blast
  then have "table_rows (g_parser g') ''fts_vector'' = (table_rows (fst pc) ''fts_vector'' @ hdr) @ [[s_id seg, v]]"
    using ys g' by simp
  then show ?thesis by blast
qed


theorem fts_row_for_every_segment_witness:
  "\<exists>g' earlier v.
      process_pair plain_args 0 (loop_start (Parser plain_schema) plain_args) (Some dogs_bark, None) = Inr g'
      \<and> table_rows (g_parser g') ''fts_vector'' = earlier @ [[''s1'', v]]"
proof -
  let ?run = "process_pair plain_args 0 (loop_start (Parser plain_schema) plain_args) (Some dogs_bark, None)"
  have "case ?run of Inl e \<Rightarrow> False | Inr q \<Rightarrow> True"
    by code_simp
  then obtain g' where run: "?run = Inr g'"
    by (cases ?run) auto
  from fts_row_for_every_segment [OF run] obtain earlier v where
    "table_rows (g_parser g') ''fts_vector'' = earlier @ [[s_id dogs_bark, v]]" by blast
  then have "table_rows (g_parser g') ''fts_vector'' = earlier @ [[''s1'', v]]"
    by (simp add: dogs_bark_def)
  with run show ?thesis by blast
qed

subsection \<open>What a run leaves of the document table\<close>














lemma doc_table_fields [simp]:
  "doc_table (p\<lparr>char_range_cur := c\<rparr>) = doc_table p"
  "doc_table (p\<lparr>frame_range_cur := f\<rparr>) = doc_table p"
  "doc_table (p\<lparr>doc_frames := d\<rparr>) = doc_table p"
  "doc_table (p\<lparr>config := cf\<rparr>) = doc_table p"
  by (simp_all add: doc_table_def)
























end
